theory Spec2Isabelle
  imports Complex_Main "HOL-Library.Word" "HOL-Library.Multiset"
begin

section \<open>Numbers\<close>

text \<open>
  The C++ sources compute with \<open>uint32_t\<close>, \<open>uint64_t\<close>, \<open>size_t\<close>, \<open>float\<close> and
  \<open>double\<close>. Unsigned machine integers of a known width are words, so that \<open>+\<close>, \<open>-\<close>
  and \<open>*\<close> wrap around as in the code. A finite value of type \<open>float\<close> or \<open>double\<close> is
  the real number it denotes; infinities and NaN are not represented. Time points are real
  numbers of microseconds.

  The planner \<open>PrepareLoadModel\<close> computes in floating point, and there every operation
  is followed by the rounding of IEEE 754: \<open>to_float\<close> rounds a real number to the nearest
  binary32 number and \<open>to_double\<close> to the nearest binary64 number, ties to the even
  significand, with gradual underflow. The exponent is not bounded from above: where the
  C++ result is infinite (a magnitude of \<open>2 ^ 128\<close> or more after rounding to binary32)
  the functions return the rounded real number instead. The other operations
  (\<open>LoadModel\<close>, the executor) are modelled with exact arithmetic on these values.
\<close>

definition round_half_even :: "real \<Rightarrow> int" where
  \<comment> \<open>the nearest integer, the even one of two nearest\<close>
  "round_half_even x =
     (let f = \<lfloor>x\<rfloor>; d = x - of_int f
      in if d < 1 / 2 then f else if 1 / 2 < d then f + 1 else if even f then f else f + 1)"

lemma floor_half_less:
  fixes r :: real
  assumes "1 \<le> r"
  shows "\<lfloor>r / 2\<rfloor> < \<lfloor>r\<rfloor>"
proof -
  have a: "r < of_int \<lfloor>r\<rfloor> + 1" by linarith
  have "1 \<le> \<lfloor>r\<rfloor>" using assms by (simp add: le_floor_iff)
  then have b: "(1::real) \<le> of_int \<lfloor>r\<rfloor>" by linarith
  have "r / 2 < of_int \<lfloor>r\<rfloor>" using a b by linarith
  then show ?thesis by (simp add: floor_less_iff)
qed

text \<open>
  A format with \<open>p\<close> significant bits represents \<open>x\<close> as an integer multiple of the
  quantum \<open>2 ^ q\<close>, where \<open>q\<close> is the least exponent with \<open>\<bar>x\<bar> < 2 ^ (q + p)\<close> but not
  less than the exponent \<open>qmin\<close> of the smallest subnormal number. \<open>quantum_up\<close> finds the
  least such exponent from \<open>q\<close> upwards, \<open>quantum_down\<close> from \<open>q\<close> downwards.
\<close>

function quantum_up :: "nat \<Rightarrow> real \<Rightarrow> int \<Rightarrow> int" where
  "quantum_up p x q = (if \<bar>x\<bar> < 2 powi (q + int p) then q else quantum_up p x (q + 1))"
  by pat_completeness auto
termination
proof (relation "measure (\<lambda>(p, x, q). nat \<lfloor>\<bar>x\<bar> / 2 powi (q + int p)\<rfloor>)")
  show "wf (measure (\<lambda>(p, x, q). nat \<lfloor>\<bar>x\<bar> / 2 powi (q + int p)\<rfloor>))" by simp
next
  fix p :: nat and x :: real and q :: int
  assume a: "\<not> \<bar>x\<bar> < 2 powi (q + int p)"
  let ?u = "(2::real) powi (q + int p)"
  have u: "0 < ?u" by simp
  have u2: "(2::real) powi (q + 1 + int p) = 2 * ?u"
    by (simp add: power_int_add add.commute add.left_commute)
  have r: "1 \<le> \<bar>x\<bar> / ?u" using a u by (simp add: field_simps)
  have half: "\<bar>x\<bar> / (2 * ?u) = (\<bar>x\<bar> / ?u) / 2" by simp
  have "\<lfloor>(\<bar>x\<bar> / ?u) / 2\<rfloor> < \<lfloor>\<bar>x\<bar> / ?u\<rfloor>"
    using r by (rule floor_half_less)
  then have "\<lfloor>\<bar>x\<bar> / (2 * ?u)\<rfloor> < \<lfloor>\<bar>x\<bar> / ?u\<rfloor>"
    by (simp only: half)
  then show "((p, x, q + 1), (p, x, q))
      \<in> measure (\<lambda>(p, x, q). nat \<lfloor>\<bar>x\<bar> / 2 powi (q + int p)\<rfloor>)"
    using r u2 by simp
qed

declare quantum_up.simps [simp del]

function quantum_down :: "nat \<Rightarrow> int \<Rightarrow> real \<Rightarrow> int \<Rightarrow> int" where
  "quantum_down p qmin x q =
     (if qmin < q \<and> \<bar>x\<bar> < 2 powi (q + int p - 1) then quantum_down p qmin x (q - 1) else q)"
  by pat_completeness auto
termination
  by (relation "measure (\<lambda>(p, qmin, x, q). nat (q - qmin))") auto

declare quantum_down.simps [simp del]

definition round_to_format :: "nat \<Rightarrow> int \<Rightarrow> real \<Rightarrow> real" where
  "round_to_format p qmin x =
     (if x = 0 then 0
      else
        let q = quantum_down p qmin x (quantum_up p x 0)
        in real_of_int (round_half_even (x / 2 powi q)) * 2 powi q)"

definition to_float :: "real \<Rightarrow> real" where
  \<comment> \<open>binary32: 24 significant bits, smallest subnormal \<open>2 ^ - 149\<close>\<close>
  "to_float x = round_to_format 24 (- 149) x"

definition to_double :: "real \<Rightarrow> real" where
  \<comment> \<open>binary64: 53 significant bits, smallest subnormal \<open>2 ^ - 1074\<close>\<close>
  "to_double x = round_to_format 53 (- 1074) x"

definition float_to_int :: "real \<Rightarrow> int" where
  \<comment> \<open>the C++ conversion \<open>int(x)\<close> of a float: the fractional part is discarded\<close>
  "float_to_int x = (if 0 \<le> x then \<lfloor>x\<rfloor> else \<lceil>x\<rceil>)"

definition float_to_uint :: "real \<Rightarrow> nat" where
  \<comment> \<open>the implicit conversion of a non-negative float to an unsigned integer\<close>
  "float_to_uint x = nat (float_to_int x)"

section \<open>Scheduler: data model\<close>

datatype CtrlStatus = CTRL_OK | CTRL_SERVER_UNREACHABLE | CTRL_MODEL_ERROR nat

datatype error = NullPointerDereference | OutOfRange | BadConversion

record ModelSession =
  framework :: string
  model_name :: string
  version :: "32 word"
  latency_sla :: "32 word"
  image_height :: "32 word option"
  image_width :: "32 word option"

record ModelInstanceConfig =
  model_session :: ModelSession
  batch :: "32 word"
  max_batch :: "32 word"
  forward_latency :: real
  memory_usage :: nat
  throughput :: real
  workload :: real

text \<open>
  The class \<open>ModelProfile\<close> (\<open>nexus/common/model_db.h\<close>) is not among the sources. A
  profile is represented by the queries the scheduler and the executor make to it; each
  value has the type of the local variable the caller stores it in.
\<close>

record ModelProfile =
  GetForwardLatency :: "32 word \<Rightarrow> real"
  GetMemoryUsage :: "32 word \<Rightarrow> 32 word"
  GetPreprocessLatency :: "32 word"
  GetPostprocessLatency :: "32 word"
  GetMaxThroughput :: "32 word \<Rightarrow> 32 word \<times> 32 word"

text \<open>
  The mutable part of \<open>BackendRpcClient\<close>, guarded by its mutex. \<open>GetModelProfile\<close> of
  the model database singleton is an input of each operation that performs the lookup:
  \<open>None\<close> is the null pointer.
\<close>

record BackendRpcClient =
  exec_cycle_us :: real
  duty_cycle_us :: real
  model_table_config :: "ModelInstanceConfig list"
  dirty_model_table :: bool
  last_time :: real

section \<open>Scheduler: table distribution\<close>

text \<open>
  The control RPC is external. \<open>stub\<close> maps the request to what the call returns: a
  transport failure (\<open>!status.ok()\<close>) or the status of the reply.
\<close>

datatype rpc_result = TransportFailure | Reply CtrlStatus

definition GetModelTableNoLock :: "BackendRpcClient \<Rightarrow> ModelInstanceConfig list" where
  "GetModelTableNoLock b = model_table_config b"

text \<open>
  The result is the returned status, the record afterwards and the request that was
  sent, if any. \<open>now\<close> is the reading of the system clock after the call.
\<close>

definition UpdateModelTable ::
  "(ModelInstanceConfig list \<Rightarrow> rpc_result) \<Rightarrow> real \<Rightarrow> BackendRpcClient \<Rightarrow>
     CtrlStatus \<times> BackendRpcClient \<times> ModelInstanceConfig list option" where
  "UpdateModelTable stub now b =
     (if \<not> dirty_model_table b then (CTRL_OK, b, None)
      else
        let request = GetModelTableNoLock b in
        case stub request of
          TransportFailure \<Rightarrow> (CTRL_SERVER_UNREACHABLE, b, Some request)
        | Reply status \<Rightarrow>
            let b1 = b\<lparr>last_time := now\<rparr>;
                b2 = (if status = CTRL_OK then b1\<lparr>dirty_model_table := False\<rparr> else b1)
            in (status, b2, Some request))"

section \<open>Scheduler: plan derivation\<close>

text \<open>
  The floating-point expressions of \<open>PrepareLoadModel\<close>. An operation on two \<open>float\<close>
  operands is rounded to binary32; an operation with the \<open>double\<close> constant \<open>1e6\<close> is
  carried out in binary64, and its result is rounded to binary32 when it is stored in a
  \<open>float\<close>. A \<open>uint32_t\<close> operand is converted to the type of the other operand first.
\<close>

definition latency_sla_us :: "ModelSession \<Rightarrow> real" where
  \<comment> \<open>\<open>float latency_sla_us = model_sess.latency_sla() * 1000\<close>: the product is a
      \<open>uint32_t\<close>, converted to \<open>float\<close>\<close>
  "latency_sla_us model_sess = to_float (real (unat (latency_sla model_sess * 1000)))"

definition residue_duty_cycle :: "ModelProfile \<Rightarrow> real \<Rightarrow> 32 word \<Rightarrow> real" where
  \<comment> \<open>\<open>float duty_cycle = latency_sla_us - fwd_lat - preprocess - postprocess\<close>\<close>
  "residue_duty_cycle p sla_us b =
     to_float (to_float (to_float (sla_us - GetForwardLatency p b)
                           - to_float (real (unat (GetPreprocessLatency p))))
                 - to_float (real (unat (GetPostprocessLatency p))))"

definition residue_throughput :: "real \<Rightarrow> 32 word \<Rightarrow> real" where
  \<comment> \<open>\<open>float throughput = batch * 1e6 / duty_cycle\<close>\<close>
  "residue_throughput duty_cycle b =
     to_float (to_double (to_double (real (unat b) * 1000000) / duty_cycle))"

definition residue_occupancy :: "real \<Rightarrow> real \<Rightarrow> real" where
  \<comment> \<open>\<open>*occupancy = fwd_lat / duty_cycle\<close>\<close>
  "residue_occupancy fwd_lat duty_cycle = to_float (fwd_lat / duty_cycle)"

text \<open>
  The test of the residue loop of \<open>PrepareLoadModel\<close> for one batch size \<open>b\<close>:
  \<open>min_duty_cycle + fwd_lat + preprocess + postprocess > latency_sla_us\<close> with
  \<open>float min_duty_cycle = (batch - 1) * 1e6 / workload\<close>.
\<close>

definition residue_overrun :: "ModelProfile \<Rightarrow> real \<Rightarrow> real \<Rightarrow> 32 word \<Rightarrow> bool" where
  "residue_overrun p wl sla_us b =
     (let fwd_lat = GetForwardLatency p b;
          min_duty_cycle = to_float (to_double (to_double (real (unat (b - 1)) * 1000000) / wl))
      in to_float (to_float (to_float (min_duty_cycle + fwd_lat)
                               + to_float (real (unat (GetPreprocessLatency p))))
                     + to_float (real (unat (GetPostprocessLatency p)))) > sla_us)"

text \<open>
  The loop \<open>for (; batch <= max_batch; ++batch) { ... break; }\<close>, returning the value
  of \<open>batch\<close> at its exit. The counter is a \<open>uint32_t\<close>: with
  \<open>max_batch = 0xFFFFFFFF\<close> the increment wraps and the loop need not end, which is the
  result \<open>None\<close>.
\<close>

partial_function (option) residue_scan ::
  "ModelProfile \<Rightarrow> real \<Rightarrow> real \<Rightarrow> 32 word \<Rightarrow> 32 word \<Rightarrow> 32 word option" where
  "residue_scan p wl sla_us mb b =
     (if b \<le> mb then
        (if residue_overrun p wl sla_us b then Some b
         else residue_scan p wl sla_us mb (b + 1))
      else Some b)"

declare residue_scan.simps [code]

text \<open>
  \<open>PrepareLoadModel\<close> writes into \<open>*config\<close> and \<open>*occupancy\<close>: both are passed in
  and returned, and a field the code does not set keeps its value. \<open>profile\<close> is the
  result of \<open>GetModelProfile(gpu_device_, profile_id)\<close>. The workload \<open>wl\<close> is a
  \<open>float\<close>; in \<open>max_throughput <= workload\<close> the \<open>uint32_t\<close> is converted to \<open>float\<close>.
\<close>

definition PrepareLoadModel ::
  "ModelProfile option \<Rightarrow> BackendRpcClient \<Rightarrow> ModelSession \<Rightarrow> real \<Rightarrow>
     ModelInstanceConfig \<Rightarrow> real \<Rightarrow> (ModelInstanceConfig \<times> real) option" where
  "PrepareLoadModel profile backend model_sess wl config occupancy =
     (case profile of
        None \<Rightarrow> Some (config\<lparr>batch := 0\<rparr>, occupancy)
      | Some p \<Rightarrow>
          let config1 = config\<lparr>model_session := model_sess\<rparr>;
              sla_us = latency_sla_us model_sess;
              (mb, max_tp) = GetMaxThroughput p (latency_sla model_sess)
          in
          if exec_cycle_us backend = 0 then
            if wl = 0 \<or> to_float (real (unat max_tp)) \<le> wl then
              let fwd_latency = GetForwardLatency p mb;
                  mem = GetMemoryUsage p mb
              in Some (config1\<lparr>batch := mb, max_batch := mb,
                         forward_latency := fwd_latency,
                         memory_usage := float_to_uint fwd_latency,
                         throughput := real (unat max_tp),
                         workload := real (unat max_tp)\<rparr>, 1)
            else
              case residue_scan p wl sla_us mb 1 of
                None \<Rightarrow> None
              | Some b_exit \<Rightarrow>
                  let b = b_exit - 1 in
                  if b = 0 then Some (config1\<lparr>batch := 0\<rparr>, occupancy)
                  else
                    let fwd_lat = GetForwardLatency p b;
                        mem = GetMemoryUsage p b;
                        duty_cycle = residue_duty_cycle p sla_us b;
                        tp = residue_throughput duty_cycle b
                    in Some (config1\<lparr>batch := b, max_batch := mb,
                               forward_latency := fwd_lat,
                               memory_usage := unat mem,
                               throughput := tp,
                               workload := wl\<rparr>, residue_occupancy fwd_lat duty_cycle)
          else
            if wl = 0 then Some (config1\<lparr>batch := 0\<rparr>, occupancy)
            else Some (config1\<lparr>batch := 0\<rparr>, occupancy))"

section \<open>Scheduler: loading a model\<close>

text \<open>\<open>LoadModel(const ModelInstanceConfig&)\<close>: refused with a log line unless the backend is idle.\<close>

definition LoadModel :: "ModelInstanceConfig \<Rightarrow> BackendRpcClient \<Rightarrow> BackendRpcClient" where
  "LoadModel config backend =
     (if exec_cycle_us backend > 0 then backend
      else
        let exec = forward_latency config;
            duty = real (unat (latency_sla (model_session config))) * 1000 - exec
        in backend\<lparr>exec_cycle_us := exec, duty_cycle_us := duty,
             model_table_config := model_table_config backend @ [config],
             dirty_model_table := True\<rparr>)"

text \<open>
  An entry of the workload file, as \<open>LoadModel(const YAML::Node&)\<close> reads it. The image
  size is optional; \<open>image_width\<close> is read whenever \<open>image_height\<close> is present, and
  reading an absent node throws.
\<close>

record model_info =
  info_framework :: string
  info_model_name :: string
  info_version :: "32 word"
  info_latency_sla :: "32 word"
  info_image_height :: "32 word option"
  info_image_width :: "32 word option"
  info_batch :: "32 word"

definition session_of_info :: "model_info \<Rightarrow> error + ModelSession" where
  "session_of_info info =
     (let sess = \<lparr>framework = info_framework info, model_name = info_model_name info,
                   version = info_version info, latency_sla = info_latency_sla info,
                   image_height = None, image_width = None\<rparr>
      in case info_image_height info of
           None \<Rightarrow> Inr sess
         | Some h \<Rightarrow>
             (case info_image_width info of
                None \<Rightarrow> Inl BadConversion
              | Some w \<Rightarrow> Inr (sess\<lparr>image_height := Some h, image_width := Some w\<rparr>)))"

text \<open>
  \<open>LoadModel(const YAML::Node&)\<close>. The profile pointer is used without a test:
  \<open>profile->GetMemoryUsage(max_batch)\<close> on the null pointer is the error
  \<open>NullPointerDereference\<close>. When \<open>duty_cycle_us_\<close> is 0 the quotient
  \<open>cfg.batch() * 1e6 / duty_cycle_us_\<close> is infinite or NaN in C++ and not represented
  here; nothing below reads it in that case.
\<close>

definition LoadModel_static ::
  "ModelProfile option \<Rightarrow> model_info \<Rightarrow> BackendRpcClient \<Rightarrow> error + BackendRpcClient" where
  "LoadModel_static profile info backend =
     (case session_of_info info of
        Inl e \<Rightarrow> Inl e
      | Inr sess \<Rightarrow>
          (case profile of
             None \<Rightarrow> Inl NullPointerDereference
           | Some p \<Rightarrow>
               let b = info_batch info;
                   mb = b;
                   mem = GetMemoryUsage p mb;
                   fwd_latency = GetForwardLatency p b;
                   config = \<lparr>model_session = sess, batch = b, max_batch = mb,
                              forward_latency = fwd_latency, memory_usage = unat mem,
                              throughput = 0, workload = 0\<rparr>;
                   exec = exec_cycle_us backend + fwd_latency;
                   duty = duty_cycle_us backend + fwd_latency;
                   retune = (\<lambda>cfg. let tp = real (unat (batch cfg)) * 1000000 / duty
                                    in cfg\<lparr>throughput := tp, workload := tp\<rparr>)
               in Inr (backend\<lparr>exec_cycle_us := exec, duty_cycle_us := duty,
                         model_table_config := map retune (model_table_config backend @ [config]),
                         dirty_model_table := True\<rparr>)))"

section \<open>Backend: model executor\<close>

text \<open>
  The classes \<open>Task\<close>, \<open>Input\<close>, \<open>Output\<close> and \<open>BatchTask\<close> and the queue templates
  are declared in headers that are not among the sources. The records below hold the
  members that \<open>model_exec.cpp\<close> reads and writes, together with the outputs of the
  specification's data model. Tasks are shared objects (\<open>std::shared_ptr<Task>\<close>): the
  executor's processing map, the batch and the postprocess queue hold pointers to one
  object. A pointer is an address, and \<open>heap\<close> maps each address to the task stored
  there.
\<close>

datatype Stage = kPreprocess | kExecute | kPostprocess | kDone

datatype Output = RealOutput nat | VirtualOutput

record Input =
  in_tid :: nat
  index :: nat
  deadline :: real

record Task =
  tid :: nat
  status :: CtrlStatus
  inputs :: "Input list"
  outputs :: "(nat \<times> Output) list"
  stage :: Stage
  timer :: "string list"

record BatchTask =
  bt_batch_id :: "64 word"
  bt_max_batch :: "32 word"
  bt_inputs :: "Input list"
  bt_tasks :: "nat list"
  bt_outputs :: "Output list"

text \<open>
  \<open>input_queue\<close> lists the queued inputs from the top of the priority queue on;
  \<open>task_queue\<close> lists the tasks pushed into the shared postprocess queue, in the order of
  the pushes; \<open>model_batch\<close> and \<open>model_max_batch\<close> are \<open>model_->batch()\<close> and
  \<open>model_->max_batch()\<close>.
\<close>

record ModelExecutor =
  heap :: "nat \<Rightarrow> Task"
  processing_tasks :: "nat \<rightharpoonup> nat"
  input_queue :: "Input list"
  task_queue :: "nat list"
  batch_id :: "64 word"
  profile :: "ModelProfile option"
  model_batch :: "32 word"
  model_max_batch :: "32 word"

text \<open>
  The three methods of the missing classes that the executor calls are parameters of the
  operations below: \<open>Task::AddVirtualOutput(index)\<close> and \<open>Task::AddOutput(output)\<close>
  change the task and return whether its outputs are complete; \<open>ModelInstance::Forward\<close>
  fills the outputs of the batch and may write to the tasks of the batch.
\<close>

type_synonym add_virtual_output = "Task \<Rightarrow> nat \<Rightarrow> Task \<times> bool"
type_synonym add_output = "Task \<Rightarrow> Output \<Rightarrow> Task \<times> bool"
type_synonym forward = "BatchTask \<Rightarrow> (nat \<Rightarrow> Task) \<Rightarrow> Output list \<times> (nat \<Rightarrow> Task)"

definition push_input :: "Input \<Rightarrow> Input list \<Rightarrow> Input list" where
  \<comment> \<open>Modelled from the spec: the comparator of \<open>input_queue_\<close> is not among the sources;
      the queue is ordered by earliest deadline first.\<close>
  "push_input inp q = insort_key deadline inp q"

definition AppendInput :: "Input \<Rightarrow> nat \<Rightarrow> BatchTask \<Rightarrow> BatchTask" where
  \<comment> \<open>Modelled from the spec: \<open>BatchTask::AppendInput\<close> is not among the sources; a batch
      holds its inputs and a parallel list of back-pointers to their tasks.\<close>
  "AppendInput inp a bt = bt\<lparr>bt_inputs := bt_inputs bt @ [inp], bt_tasks := bt_tasks bt @ [a]\<rparr>"

definition new_batch_task :: "64 word \<Rightarrow> 32 word \<Rightarrow> BatchTask" where
  \<comment> \<open>the constructor \<open>BatchTask(batch_id, max_batch)\<close>\<close>
  "new_batch_task b_id mb = \<lparr>bt_batch_id = b_id, bt_max_batch = mb,
     bt_inputs = [], bt_tasks = [], bt_outputs = []\<rparr>"

definition batch_size :: "BatchTask \<Rightarrow> nat" where
  "batch_size bt = length (bt_inputs bt)"

text \<open>
  \<open>AddTask\<close> returns \<open>void\<close> and throws nothing: the result is always \<open>Inr\<close>.
  \<open>emplace\<close> on an \<open>unordered_map\<close> leaves the map as it is when the key is present; its
  result is not read.
\<close>

definition AddTask :: "nat \<Rightarrow> ModelExecutor \<Rightarrow> error + ModelExecutor" where
  "AddTask a ex =
     (let task = heap ex a;
          ex1 = (case processing_tasks ex (tid task) of
                   None \<Rightarrow> ex\<lparr>processing_tasks := (processing_tasks ex)(tid task \<mapsto> a)\<rparr>
                 | Some _ \<Rightarrow> ex)
      in Inr (ex1\<lparr>input_queue := foldl (\<lambda>q inp. push_input inp q) (input_queue ex1) (inputs task)\<rparr>))"

definition RemoveTask :: "nat \<Rightarrow> ModelExecutor \<Rightarrow> ModelExecutor" where
  "RemoveTask a ex =
     (let ex1 = ex\<lparr>heap := (heap ex)(a := (heap ex a)\<lparr>stage := kPostprocess\<rparr>)\<rparr>;
          ex2 = ex1\<lparr>task_queue := task_queue ex1 @ [a]\<rparr>
      in ex2\<lparr>processing_tasks := (processing_tasks ex2)(tid (heap ex2 a) := None)\<rparr>)"

subsection \<open>Batch formation\<close>

definition planned_batch_size :: "ModelExecutor \<Rightarrow> nat" where
  \<comment> \<open>\<open>size_t batch_size = input_queue_.size(); if (batch_size > model_->batch()) ...\<close>\<close>
  "planned_batch_size ex =
     (let n = length (input_queue ex)
      in if n > unat (model_batch ex) then unat (model_batch ex) else n)"

definition forward_latency_argument :: "ModelExecutor \<Rightarrow> 32 word" where
  \<comment> \<open>the batch size that \<open>GetBatchInput\<close> passes to \<open>GetForwardLatency\<close>\<close>
  "forward_latency_argument ex = of_nat (planned_batch_size ex)"

definition finish_time :: "real \<Rightarrow> ModelExecutor \<Rightarrow> real option" where
  \<comment> \<open>\<open>finish = Clock::now() + std::chrono::microseconds(int(latency))\<close>, set only when
      a profile is present\<close>
  "finish_time now ex =
     (case profile ex of
        None \<Rightarrow> None
      | Some p \<Rightarrow>
          let latency = GetForwardLatency p (forward_latency_argument ex)
          in Some (now + real_of_int (float_to_int latency)))"

text \<open>
  The body of the loop of \<open>GetBatchInput\<close> for the input \<open>inp\<close> just popped.
  \<open>processing_tasks_.at\<close> throws \<open>std::out_of_range\<close> for a task id that is not in the
  map. The mutex is released around \<open>RemoveTask\<close>; other threads are not modelled.
\<close>

definition process_input ::
  "add_virtual_output \<Rightarrow> real option \<Rightarrow> Input \<Rightarrow> ModelExecutor \<Rightarrow> BatchTask \<Rightarrow>
     error + (ModelExecutor \<times> BatchTask)" where
  "process_input AddVirtualOutput finish inp ex bt =
     (case processing_tasks ex (in_tid inp) of
        None \<Rightarrow> Inl OutOfRange
      | Some a \<Rightarrow>
          let ex1 = ex\<lparr>heap := (heap ex)(a := (heap ex a)\<lparr>timer := timer (heap ex a) @ [''exec'']\<rparr>)\<rparr>;
              task = heap ex1 a
          in
          if status task \<noteq> CTRL_OK \<or>
             (case finish of None \<Rightarrow> False | Some f \<Rightarrow> deadline inp < f)
          then
            let (task', complete) = AddVirtualOutput task (index inp);
                ex2 = ex1\<lparr>heap := (heap ex1)(a := task')\<rparr>
            in Inr (if complete then RemoveTask a ex2 else ex2, bt)
          else Inr (ex1, AppendInput inp a bt))"

lemma process_input_queue:
  "process_input avo finish inp ex bt = Inr (ex', bt') \<Longrightarrow> input_queue ex' = input_queue ex"
  by (auto simp: process_input_def RemoveTask_def Let_def
      split: option.splits if_splits prod.splits)

function GetBatchInput_loop ::
  "add_virtual_output \<Rightarrow> nat \<Rightarrow> real option \<Rightarrow> ModelExecutor \<Rightarrow> BatchTask \<Rightarrow>
     error + (ModelExecutor \<times> BatchTask)" where
  "GetBatchInput_loop AddVirtualOutput n finish ex bt =
     (if batch_size bt < n then
        (case input_queue ex of
           [] \<Rightarrow> Inr (ex, bt)
         | inp # rest \<Rightarrow>
             (case process_input AddVirtualOutput finish inp (ex\<lparr>input_queue := rest\<rparr>) bt of
                Inl e \<Rightarrow> Inl e
              | Inr (ex', bt') \<Rightarrow> GetBatchInput_loop AddVirtualOutput n finish ex' bt'))
      else Inr (ex, bt))"
  by pat_completeness auto
termination
proof (relation "measure (\<lambda>(avo, n, finish, ex, bt). length (input_queue ex))")
  show "wf (measure (\<lambda>(avo, n, finish, ex, bt). length (input_queue ex)))" by simp
next
  fix AddVirtualOutput :: add_virtual_output and n finish ex bt inp rest x y ex' bt'
  assume "input_queue ex = inp # rest"
    and "process_input AddVirtualOutput finish inp (ex\<lparr>input_queue := rest\<rparr>) bt = Inr y"
    and "(ex', bt') = y"
  then show "((AddVirtualOutput, n, finish, ex', bt'), (AddVirtualOutput, n, finish, ex, bt))
      \<in> measure (\<lambda>(avo, n, finish, ex, bt). length (input_queue ex))"
    using process_input_queue [of AddVirtualOutput finish inp "ex\<lparr>input_queue := rest\<rparr>" bt ex' bt']
    by auto
qed

declare GetBatchInput_loop.simps [simp del]

definition GetBatchInput ::
  "add_virtual_output \<Rightarrow> real \<Rightarrow> ModelExecutor \<Rightarrow> BatchTask \<Rightarrow>
     error + (ModelExecutor \<times> BatchTask)" where
  "GetBatchInput AddVirtualOutput now ex bt =
     GetBatchInput_loop AddVirtualOutput (planned_batch_size ex) (finish_time now ex) ex bt"

subsection \<open>Forward and fanout\<close>

text \<open>
  The loop over \<open>outputs\<close> at the end of \<open>Execute\<close>; \<open>tasks[i]\<close> beyond the end of
  \<open>tasks\<close> is an out-of-range read.
\<close>

fun fanout :: "add_output \<Rightarrow> Output list \<Rightarrow> nat list \<Rightarrow> ModelExecutor \<Rightarrow> error + ModelExecutor" where
  "fanout AddOutput [] ts ex = Inr ex"
| "fanout AddOutput (out # outs) [] ex = Inl OutOfRange"
| "fanout AddOutput (out # outs) (a # ts) ex =
     (let (task', complete) = AddOutput (heap ex a) out;
          ex1 = ex\<lparr>heap := (heap ex)(a := task')\<rparr>
      in fanout AddOutput outs ts (if complete then RemoveTask a ex1 else ex1))"

text \<open>
  \<open>Execute\<close> returns the executor, the batch and whether \<open>model_->Forward\<close> was called.
  The input and output arrays, the clock readings around the calls and the log line are
  left out.
\<close>

definition Execute ::
  "add_virtual_output \<Rightarrow> add_output \<Rightarrow> forward \<Rightarrow> real \<Rightarrow> ModelExecutor \<Rightarrow>
     error + (ModelExecutor \<times> BatchTask \<times> bool)" where
  "Execute AddVirtualOutput AddOutput Forward now ex =
     (let b_id = batch_id ex;
          ex1 = ex\<lparr>batch_id := batch_id ex + 1\<rparr>;
          batch_task = new_batch_task b_id (model_max_batch ex1)
      in case GetBatchInput AddVirtualOutput now ex1 batch_task of
           Inl e \<Rightarrow> Inl e
         | Inr (ex2, bt2) \<Rightarrow>
             if batch_size bt2 = 0 then Inr (ex2, bt2, False)
             else
               let (outs, heap') = Forward bt2 (heap ex2);
                   bt3 = bt2\<lparr>bt_outputs := outs\<rparr>
               in case fanout AddOutput (bt_outputs bt3) (bt_tasks bt3) (ex2\<lparr>heap := heap'\<rparr>) of
                    Inl e \<Rightarrow> Inl e
                  | Inr ex3 \<Rightarrow> Inr (ex3, bt3, True))"

section \<open>The residue constraint as the specification words it\<close>

text \<open>
  \<open>((b - 1) * 1e6 / offered_workload) + forward(b) + preprocess + postprocess \<le> sla_us\<close>,
  in exact arithmetic.
\<close>

definition residue_fits :: "ModelProfile \<Rightarrow> real \<Rightarrow> real \<Rightarrow> 32 word \<Rightarrow> bool" where
  "residue_fits p wl sla_us b \<longleftrightarrow>
     (real (unat b) - 1) * 1000000 / wl + GetForwardLatency p b
       + real (unat (GetPreprocessLatency p)) + real (unat (GetPostprocessLatency p)) \<le> sla_us"

section \<open>Example values\<close>

definition idle_backend :: BackendRpcClient where
  "idle_backend = \<lparr>exec_cycle_us = 0, duty_cycle_us = 0, model_table_config = [],
     dirty_model_table = False, last_time = 0\<rparr>"

text \<open>
  The profile of the specification's scenarios: \<open>forward(1) = 5000\<close>,
  \<open>forward(2) = 7000\<close>, \<open>forward(8) = 20000\<close>, 1000 microseconds each of pre- and
  postprocessing, and for an SLA of 50 ms the maximal batch 8 at 160 requests per second.
\<close>

definition even_profile :: ModelProfile where
  "even_profile = \<lparr>
     GetForwardLatency = (\<lambda>b. if b = 1 then 5000 else if b = 2 then 7000 else
        if b = 3 then 9000 else if b = 4 then 11000 else if b = 5 then 13000 else
        if b = 6 then 15000 else if b = 7 then 17000 else 20000),
     GetMemoryUsage = (\<lambda>b. 4096 * b),
     GetPreprocessLatency = 1000,
     GetPostprocessLatency = 1000,
     GetMaxThroughput = (\<lambda>sla. (8, 160))\<rparr>"

text \<open>
  A profile whose measured forward latency is not monotone in the batch size: batch 2 is
  slow, batch 3 is as fast as batch 1 (the table holds the batch sizes 1 to 3). All three
  fit an SLA of 50 ms on their own, so the maximal batch is 3, at
  \<open>3 * 1e6 / 50000 = 60\<close> requests per second.
\<close>

definition uneven_profile :: ModelProfile where
  "uneven_profile = \<lparr>
     GetForwardLatency = (\<lambda>b. if b = 2 then 40000 else 5000),
     GetMemoryUsage = (\<lambda>b. 4096 * b),
     GetPreprocessLatency = 1000,
     GetPostprocessLatency = 1000,
     GetMaxThroughput = (\<lambda>sla. (3, 60))\<rparr>"

text \<open>
  A profile for which rounding decides the loop test (the table holds the batch sizes 1
  and 2): with 7 requests per second, \<open>1e6 / 7\<close> is stored in a \<open>float\<close> as
  \<open>142857.140625\<close>, and \<open>forward(2) = 7142.859375\<close> brings the sum to \<open>150000\<close>.
  Both batch sizes fit an SLA of 150 ms on their own, so the maximal batch is 2, at
  \<open>2 * 1e6 / 150000\<close>, as a \<open>uint32_t\<close> 13, requests per second.
\<close>

definition tight_profile :: ModelProfile where
  "tight_profile = \<lparr>
     GetForwardLatency = (\<lambda>b. if b = 2 then 457143 / 64 else 5000),
     GetMemoryUsage = (\<lambda>b. 4096 * b),
     GetPreprocessLatency = 0,
     GetPostprocessLatency = 0,
     GetMaxThroughput = (\<lambda>sla. (2, 13))\<rparr>"

definition session150 :: ModelSession where
  "session150 = \<lparr>framework = ''tensorflow'', model_name = ''resnet'', version = 1,
     latency_sla = 150, image_height = None, image_width = None\<rparr>"

definition session50 :: ModelSession where
  "session50 = \<lparr>framework = ''tensorflow'', model_name = ''resnet'', version = 1,
     latency_sla = 50, image_height = None, image_width = None\<rparr>"

definition blank_config :: ModelInstanceConfig where
  "blank_config = \<lparr>model_session = session50, batch = 0, max_batch = 0, forward_latency = 0,
     memory_usage = 0, throughput = 0, workload = 0\<rparr>"

definition entry50 :: model_info where
  "entry50 = \<lparr>info_framework = ''tensorflow'', info_model_name = ''resnet'',
     info_version = 1, info_latency_sla = 50, info_image_height = None,
     info_image_width = None, info_batch = 4\<rparr>"

text \<open>
  Instances of the three methods that are parameters of the executor: a task is complete
  when it has as many outputs as inputs, and the forward pass returns one output for each
  input of the batch.
\<close>

definition counting_AddVirtualOutput :: add_virtual_output where
  "counting_AddVirtualOutput task i =
     (let task' = task\<lparr>outputs := outputs task @ [(i, VirtualOutput)]\<rparr>
      in (task', length (outputs task') = length (inputs task')))"

definition counting_AddOutput :: add_output where
  "counting_AddOutput task out =
     (let task' = task\<lparr>outputs := outputs task @ [(length (outputs task), out)]\<rparr>
      in (task', length (outputs task') = length (inputs task')))"

definition echo_Forward :: forward where
  "echo_Forward bt h = (map (\<lambda>inp. RealOutput (index inp)) (bt_inputs bt), h)"

text \<open>A profile with the measured mean \<open>forward(1) = 5000.5\<close> microseconds.\<close>

definition half_profile :: ModelProfile where
  "half_profile = even_profile\<lparr>GetForwardLatency := (\<lambda>b. 5000 * real (unat b) + 1 / 2)\<rparr>"

definition input7 :: Input where
  "input7 = \<lparr>in_tid = 7, index = 0, deadline = 5000\<rparr>"

definition task7 :: Task where
  "task7 = \<lparr>tid = 7, status = CTRL_OK, inputs = [input7], outputs = [], stage = kExecute,
     timer = []\<rparr>"

text \<open>
  An executor as constructed, every address holding a copy of \<open>task7\<close>, and the same
  executor after the task at address 0 has been added.
\<close>

definition fresh_executor :: ModelExecutor where
  "fresh_executor = \<lparr>heap = (\<lambda>a. task7), processing_tasks = Map.empty, input_queue = [],
     task_queue = [], batch_id = 0, profile = Some half_profile, model_batch = 8,
     model_max_batch = 8\<rparr>"

definition one_input_executor :: ModelExecutor where
  "one_input_executor =
     fresh_executor\<lparr>processing_tasks := [7 \<mapsto> 0], input_queue := [input7]\<rparr>"

definition empty_batch :: BatchTask where
  "empty_batch = new_batch_task 0 8"

section \<open>Table distribution: results\<close>

lemma UpdateModelTable_clean:
  "\<not> dirty_model_table b \<Longrightarrow> UpdateModelTable stub now b = (CTRL_OK, b, None)"
  by (simp add: UpdateModelTable_def)

lemma UpdateModelTable_failure:
  "dirty_model_table b \<Longrightarrow> stub (model_table_config b) = TransportFailure \<Longrightarrow>
   UpdateModelTable stub now b = (CTRL_SERVER_UNREACHABLE, b, Some (model_table_config b))"
  by (simp add: UpdateModelTable_def GetModelTableNoLock_def)

lemma UpdateModelTable_reply:
  "dirty_model_table b \<Longrightarrow> stub (model_table_config b) = Reply r \<Longrightarrow>
   UpdateModelTable stub now b =
     (r, b\<lparr>last_time := now, dirty_model_table := (r \<noteq> CTRL_OK)\<rparr>,
      Some (model_table_config b))"
  by (simp add: UpdateModelTable_def GetModelTableNoLock_def Let_def)

text \<open>
  Claim C6. \<open>UpdateModelTable\<close> on a table that is not dirty sends nothing, changes
  nothing and returns \<open>CTRL_OK\<close>. On a dirty table it sends the current
  \<open>model_table_config\<close>; when the transport fails it returns
  \<open>CTRL_SERVER_UNREACHABLE\<close> and the record, with its dirty flag set, is unchanged;
  when the transport succeeds it returns the status of the reply, and the dirty flag is
  cleared if and only if that status is \<open>CTRL_OK\<close>.
\<close>

theorem UpdateModelTable_contract:
  "(\<not> dirty_model_table b \<longrightarrow> UpdateModelTable stub now b = (CTRL_OK, b, None)) \<and>
   (dirty_model_table b \<longrightarrow>
      snd (snd (UpdateModelTable stub now b)) = Some (model_table_config b) \<and>
      (stub (model_table_config b) = TransportFailure \<longrightarrow>
         fst (UpdateModelTable stub now b) = CTRL_SERVER_UNREACHABLE \<and>
         fst (snd (UpdateModelTable stub now b)) = b \<and>
         dirty_model_table (fst (snd (UpdateModelTable stub now b)))) \<and>
      (\<forall>r. stub (model_table_config b) = Reply r \<longrightarrow>
         fst (UpdateModelTable stub now b) = r \<and>
         model_table_config (fst (snd (UpdateModelTable stub now b))) = model_table_config b \<and>
         (\<not> dirty_model_table (fst (snd (UpdateModelTable stub now b))) \<longleftrightarrow> r = CTRL_OK)))"
proof (intro conjI impI allI)
  show "UpdateModelTable stub now b = (CTRL_OK, b, None)" if "\<not> dirty_model_table b"
    using that by (rule UpdateModelTable_clean)
next
  assume d: "dirty_model_table b"
  show "snd (snd (UpdateModelTable stub now b)) = Some (model_table_config b)"
    using d by (cases "stub (model_table_config b)")
      (simp_all add: UpdateModelTable_failure UpdateModelTable_reply)
  {
    assume f: "stub (model_table_config b) = TransportFailure"
    from d f show "fst (UpdateModelTable stub now b) = CTRL_SERVER_UNREACHABLE"
      by (simp add: UpdateModelTable_failure)
    from d f show "fst (snd (UpdateModelTable stub now b)) = b"
      by (simp add: UpdateModelTable_failure)
    from d f show "dirty_model_table (fst (snd (UpdateModelTable stub now b)))"
      by (simp add: UpdateModelTable_failure)
  }
  fix r
  assume r: "stub (model_table_config b) = Reply r"
  from d r show "fst (UpdateModelTable stub now b) = r"
    by (simp add: UpdateModelTable_reply)
  from d r
  show "model_table_config (fst (snd (UpdateModelTable stub now b))) = model_table_config b"
    by (simp add: UpdateModelTable_reply)
  from d r
  show "(\<not> dirty_model_table (fst (snd (UpdateModelTable stub now b)))) = (r = CTRL_OK)"
    by (simp add: UpdateModelTable_reply)
qed

theorem UpdateModelTable_contract_witness:
  "\<not> dirty_model_table idle_backend \<and>
   UpdateModelTable (\<lambda>_. Reply CTRL_OK) 7 idle_backend = (CTRL_OK, idle_backend, None) \<and>
   dirty_model_table (idle_backend\<lparr>dirty_model_table := True\<rparr>) \<and>
   fst (UpdateModelTable (\<lambda>_. TransportFailure) 7 (idle_backend\<lparr>dirty_model_table := True\<rparr>))
     = CTRL_SERVER_UNREACHABLE \<and>
   dirty_model_table (fst (snd (UpdateModelTable (\<lambda>_. TransportFailure) 7
     (idle_backend\<lparr>dirty_model_table := True\<rparr>)))) \<and>
   fst (UpdateModelTable (\<lambda>_. Reply CTRL_OK) 7 (idle_backend\<lparr>dirty_model_table := True\<rparr>))
     = CTRL_OK \<and>
   \<not> dirty_model_table (fst (snd (UpdateModelTable (\<lambda>_. Reply CTRL_OK) 7
     (idle_backend\<lparr>dirty_model_table := True\<rparr>)))) \<and>
   fst (UpdateModelTable (\<lambda>_. Reply (CTRL_MODEL_ERROR 1)) 7
     (idle_backend\<lparr>dirty_model_table := True\<rparr>)) = CTRL_MODEL_ERROR 1 \<and>
   dirty_model_table (fst (snd (UpdateModelTable (\<lambda>_. Reply (CTRL_MODEL_ERROR 1)) 7
     (idle_backend\<lparr>dirty_model_table := True\<rparr>))))"
  using UpdateModelTable_contract [of idle_backend "\<lambda>_. Reply CTRL_OK" 7]
    UpdateModelTable_contract
      [of "idle_backend\<lparr>dirty_model_table := True\<rparr>" "\<lambda>_. TransportFailure" 7]
    UpdateModelTable_contract
      [of "idle_backend\<lparr>dirty_model_table := True\<rparr>" "\<lambda>_. Reply CTRL_OK" 7]
    UpdateModelTable_contract
      [of "idle_backend\<lparr>dirty_model_table := True\<rparr>" "\<lambda>_. Reply (CTRL_MODEL_ERROR 1)" 7]
  by (simp add: idle_backend_def)

section \<open>Plan derivation: results\<close>

lemma word_succ_unat:
  fixes b mb :: "32 word"
  assumes "b \<le> mb" "mb \<noteq> - 1"
  shows "unat (b + 1) = unat b + 1"
proof -
  have "b \<noteq> - 1" using assms by (metis word_order.extremum_unique)
  then have "1 + b \<noteq> 0" by (metis add.commute add_eq_0_iff2)
  then have "unat (1 + b) = Suc (unat b)" by (rule unatSuc)
  then show ?thesis by (simp add: add.commute)
qed

lemma word_pred_unat:
  fixes b :: "32 word"
  assumes "b \<noteq> 0"
  shows "unat (b - 1) = unat b - 1"
  using assms by (simp add: unat_minus_one)

lemmas float_unfold =
  to_float_def to_double_def round_to_format_def quantum_up.simps quantum_down.simps
  round_half_even_def Let_def

text \<open>
  The loop ends whenever \<open>max_batch\<close> is not the largest \<open>uint32_t\<close>. It stops at the
  first batch size that overruns the SLA, or one past \<open>max_batch\<close>.
\<close>

lemma residue_scan_exit:
  fixes b mb :: "32 word"
  assumes "mb \<noteq> - 1" "unat b \<le> unat mb + 1"
  shows "\<exists>e. residue_scan p wl sla mb b = Some e \<and> b \<le> e \<and> unat e \<le> unat mb + 1 \<and>
     (\<forall>c. b \<le> c \<and> c < e \<longrightarrow> \<not> residue_overrun p wl sla c) \<and>
     (e \<le> mb \<longrightarrow> residue_overrun p wl sla e)"
  using assms
proof (induction "unat mb + 1 - unat b" arbitrary: b)
  case 0
  then have gt: "\<not> b \<le> mb" by (simp add: word_le_nat_alt)
  then have "residue_scan p wl sla mb b = Some b"
    by (subst residue_scan.simps) simp
  with gt 0 show ?case by auto
next
  case (Suc n)
  then have le: "b \<le> mb" by (simp add: word_le_nat_alt)
  show ?case
  proof (cases "residue_overrun p wl sla b")
    case True
    with le have "residue_scan p wl sla mb b = Some b"
      by (subst residue_scan.simps) simp
    with True Suc.prems show ?thesis by auto
  next
    case False
    have su: "unat (b + 1) = unat b + 1"
      using le Suc.prems(1) by (rule word_succ_unat)
    have step: "residue_scan p wl sla mb b = residue_scan p wl sla mb (b + 1)"
      using le False by (subst residue_scan.simps) simp
    have "n = unat mb + 1 - unat (b + 1)" using Suc.hyps(2) su by simp
    moreover have "unat (b + 1) \<le> unat mb + 1" using le su by (simp add: word_le_nat_alt)
    ultimately obtain e where e: "residue_scan p wl sla mb (b + 1) = Some e" "b + 1 \<le> e"
      "unat e \<le> unat mb + 1"
      "\<forall>c. b + 1 \<le> c \<and> c < e \<longrightarrow> \<not> residue_overrun p wl sla c"
      "e \<le> mb \<longrightarrow> residue_overrun p wl sla e"
      using Suc.hyps(1) [of "b + 1"] Suc.prems(1) by blast
    have be: "b \<le> e" using e(2) su by (simp add: word_le_nat_alt)
    have "\<not> residue_overrun p wl sla c" if "b \<le> c" "c < e" for c
    proof (cases "c = b")
      case True
      with False show ?thesis by simp
    next
      case False
      with that(1) have "b < c" by simp
      then have "b + 1 \<le> c" by (rule inc_le)
      with e(4) that(2) show ?thesis by blast
    qed
    with e be step show ?thesis by auto
  qed
qed

lemma residue_scan_from_one:
  fixes mb :: "32 word"
  assumes mb: "mb \<noteq> - 1"
  shows "\<exists>e. residue_scan p wl sla mb 1 = Some e \<and> e \<noteq> 0 \<and> e - 1 \<le> mb \<and>
     (\<forall>c. 1 \<le> c \<and> c \<le> e - 1 \<longrightarrow> \<not> residue_overrun p wl sla c) \<and>
     (e - 1 < mb \<longrightarrow> residue_overrun p wl sla e)"
proof -
  have "unat (1 :: 32 word) \<le> unat mb + 1" by simp
  from residue_scan_exit [OF mb this, of p wl sla]
  obtain e where e: "residue_scan p wl sla mb 1 = Some e" "1 \<le> e" "unat e \<le> unat mb + 1"
    "\<forall>c. 1 \<le> c \<and> c < e \<longrightarrow> \<not> residue_overrun p wl sla c"
    "e \<le> mb \<longrightarrow> residue_overrun p wl sla e"
    by blast
  have nz: "e \<noteq> 0" using e(2) by auto
  have pred: "unat (e - 1) = unat e - 1" using nz by (rule word_pred_unat)
  have pos: "0 < unat e" using nz by (simp add: unat_gt_0)
  have le: "e - 1 \<le> mb" using e(3) pred by (simp add: word_le_nat_alt)
  have pass: "\<not> residue_overrun p wl sla c" if "1 \<le> c" "c \<le> e - 1" for c
  proof -
    have "c < e" using that(2) pred pos by (simp add: word_le_nat_alt word_less_nat_alt)
    then show ?thesis using e(4) that(1) by blast
  qed
  have "residue_overrun p wl sla e" if "e - 1 < mb"
  proof -
    have "e \<le> mb" using that pred pos by (simp add: word_le_nat_alt word_less_nat_alt)
    with e(5) show ?thesis by blast
  qed
  with e(1) nz le pass show ?thesis by blast
qed

text \<open>
  Claim C1, as amended. On an idle backend, with a profile, a workload \<open>0 < workload\<close>
  that is below \<open>max_throughput\<close> as a \<open>float\<close>, and \<open>max_batch\<close> below the largest
  \<open>uint32_t\<close>, \<open>PrepareLoadModel\<close> returns, and the batch \<open>b\<close> of the returned config
  is at most \<open>max_batch\<close> and is the end of the initial run of batch sizes that pass the
  test of the loop as the code computes it: \<open>(b - 1) * 1e6 / workload\<close> formed in binary64
  and stored as a \<open>float\<close>, then \<open>forward(b)\<close>, \<open>preprocess\<close> and \<open>postprocess\<close> added
  one by one in binary32, and the sum not greater than \<open>sla_us\<close>. Every batch size from 1
  to \<open>b\<close> passes this test, and \<open>b + 1\<close>, when at most \<open>max_batch\<close>, does not. If no
  batch size from 1 to \<open>max_batch\<close> passes it, \<open>b = 0\<close>. When \<open>b \<noteq> 0\<close> the config has
  \<open>forward_latency = forward(b)\<close>, and with \<open>D = sla_us - forward(b) - preprocess -
  postprocess\<close> subtracted one by one in binary32, it has \<open>throughput = b * 1e6 / D\<close>
  formed in binary64 and stored as a \<open>float\<close>, and \<open>occupancy = forward(b) / D\<close> in
  binary32, provided \<open>D \<noteq> 0\<close> and the two quotients are below \<open>2 ^ 127\<close> in magnitude,
  so that neither is infinite. Here \<open>sla_us\<close> is the \<open>uint32_t\<close> product
  \<open>latency_sla * 1000\<close> as a \<open>float\<close>.
\<close>

theorem PrepareLoadModel_residue:
  fixes mb :: "32 word"
  assumes idle: "exec_cycle_us backend = 0"
    and tp: "GetMaxThroughput p (latency_sla sess) = (mb, max_tp)"
    and wl: "0 < wl" "wl < to_float (real (unat max_tp))"
    and mb: "mb \<noteq> - 1"
  shows "\<exists>cfg occ.
     PrepareLoadModel (Some p) backend sess wl config occupancy = Some (cfg, occ) \<and>
     batch cfg \<le> mb \<and>
     (\<forall>c. 1 \<le> c \<and> c \<le> batch cfg \<longrightarrow> \<not> residue_overrun p wl (latency_sla_us sess) c) \<and>
     (batch cfg < mb \<longrightarrow> residue_overrun p wl (latency_sla_us sess) (batch cfg + 1)) \<and>
     ((\<forall>c. 1 \<le> c \<and> c \<le> mb \<longrightarrow> residue_overrun p wl (latency_sla_us sess) c) \<longrightarrow>
        batch cfg = 0) \<and>
     (batch cfg \<noteq> 0 \<longrightarrow>
        forward_latency cfg = GetForwardLatency p (batch cfg) \<and>
        (residue_duty_cycle p (latency_sla_us sess) (batch cfg) \<noteq> 0 \<and>
         \<bar>real (unat (batch cfg)) * 1000000
            / residue_duty_cycle p (latency_sla_us sess) (batch cfg)\<bar> < 2 ^ 127 \<and>
         \<bar>GetForwardLatency p (batch cfg)
            / residue_duty_cycle p (latency_sla_us sess) (batch cfg)\<bar> < 2 ^ 127 \<longrightarrow>
           throughput cfg =
             residue_throughput (residue_duty_cycle p (latency_sla_us sess) (batch cfg))
               (batch cfg) \<and>
           occ =
             residue_occupancy (GetForwardLatency p (batch cfg))
               (residue_duty_cycle p (latency_sla_us sess) (batch cfg))))"
proof -
  let ?sla = "latency_sla_us sess"
  from residue_scan_from_one [OF mb, of p wl ?sla]
  obtain e where e: "residue_scan p wl ?sla mb 1 = Some e" "e \<noteq> 0" "e - 1 \<le> mb"
    "\<forall>c. 1 \<le> c \<and> c \<le> e - 1 \<longrightarrow> \<not> residue_overrun p wl ?sla c"
    "e - 1 < mb \<longrightarrow> residue_overrun p wl ?sla e"
    by blast
  have branch: "\<not> (wl = 0 \<or> to_float (real (unat max_tp)) \<le> wl)" using wl by simp
  show ?thesis
  proof (cases "e - 1 = 0")
    case True
    have res: "PrepareLoadModel (Some p) backend sess wl config occupancy =
        Some (config\<lparr>model_session := sess, batch := 0\<rparr>, occupancy)"
      using idle tp branch e(1) True by (simp add: PrepareLoadModel_def Let_def)
    have e1: "e = 1" using True by simp
    show ?thesis using res e(5) e1 by (auto simp: word_le_nat_alt)
  next
    case False
    let ?b = "e - 1"
    let ?D = "residue_duty_cycle p ?sla ?b"
    have res: "PrepareLoadModel (Some p) backend sess wl config occupancy =
        Some (config\<lparr>model_session := sess, batch := ?b, max_batch := mb,
                forward_latency := GetForwardLatency p ?b,
                memory_usage := unat (GetMemoryUsage p ?b),
                throughput := residue_throughput ?D ?b,
                workload := wl\<rparr>, residue_occupancy (GetForwardLatency p ?b) ?D)"
      using idle tp branch e(1) False by (simp add: PrepareLoadModel_def Let_def)
    have one: "1 \<le> ?b"
      using False by (simp add: word_le_nat_alt unat_eq_zero Suc_le_eq unat_gt_0)
    have passb: "\<not> residue_overrun p wl ?sla ?b" using e(4) one by blast
    have "\<not> (\<forall>c. 1 \<le> c \<and> c \<le> mb \<longrightarrow> residue_overrun p wl ?sla c)"
      using passb one e(3) by blast
    then show ?thesis using res e(3) e(4) e(5) by auto
  qed
qed

theorem PrepareLoadModel_residue_witness:
  "exec_cycle_us idle_backend = 0 \<and>
   GetMaxThroughput even_profile (latency_sla session50) = (8, 160) \<and>
   (0 :: real) < 50 \<and> 50 < to_float (real (unat (160 :: 32 word))) \<and> (8 :: 32 word) \<noteq> - 1 \<and>
   map_option (batch \<circ> fst)
     (PrepareLoadModel (Some even_profile) idle_backend session50 50 blank_config 0) = Some 2 \<and>
   \<not> residue_overrun even_profile 50 (latency_sla_us session50) 1 \<and>
   \<not> residue_overrun even_profile 50 (latency_sla_us session50) 2 \<and>
   residue_overrun even_profile 50 (latency_sla_us session50) 3 \<and>
   map_option (forward_latency \<circ> fst)
     (PrepareLoadModel (Some even_profile) idle_backend session50 50 blank_config 0) = Some 7000 \<and>
   residue_duty_cycle even_profile (latency_sla_us session50) 2 = 41000 \<and>
   \<bar>real (unat (2 :: 32 word)) * 1000000 / 41000\<bar> < 2 ^ 127 \<and>
   \<bar>GetForwardLatency even_profile 2 / 41000\<bar> < 2 ^ 127 \<and>
   map_option (throughput \<circ> fst)
     (PrepareLoadModel (Some even_profile) idle_backend session50 50 blank_config 0)
     = Some (1598439 / 32768) \<and>
   map_option snd
     (PrepareLoadModel (Some even_profile) idle_backend session50 50 blank_config 0)
     = Some (11457611 / 67108864)"
proof -
  have idle: "exec_cycle_us idle_backend = 0"
    by (simp add: idle_backend_def)
  have tp: "GetMaxThroughput even_profile (latency_sla session50) = (8, 160)"
    by (simp add: even_profile_def)
  have wl: "(0 :: real) < 50" "50 < to_float (real (unat (160 :: 32 word)))"
    by (simp_all add: float_unfold)
  have mb: "(8 :: 32 word) \<noteq> - 1"
    by simp
  have loop: "\<not> residue_overrun even_profile 50 (latency_sla_us session50) 1"
    "\<not> residue_overrun even_profile 50 (latency_sla_us session50) 2"
    "residue_overrun even_profile 50 (latency_sla_us session50) 3"
    by (simp_all add: residue_overrun_def latency_sla_us_def even_profile_def session50_def
        float_unfold)
  have duty: "residue_duty_cycle even_profile (latency_sla_us session50) 2 = 41000"
    by (simp add: residue_duty_cycle_def latency_sla_us_def even_profile_def session50_def
        float_unfold)
  have range: "\<bar>real (unat (2 :: 32 word)) * 1000000 / 41000\<bar> < 2 ^ 127"
    "\<bar>GetForwardLatency even_profile 2 / 41000\<bar> < 2 ^ 127"
    by (simp_all add: even_profile_def)
  have plan: "map_option (batch \<circ> fst)
     (PrepareLoadModel (Some even_profile) idle_backend session50 50 blank_config 0) = Some 2"
    "map_option (forward_latency \<circ> fst)
     (PrepareLoadModel (Some even_profile) idle_backend session50 50 blank_config 0) = Some 7000"
    "map_option (throughput \<circ> fst)
     (PrepareLoadModel (Some even_profile) idle_backend session50 50 blank_config 0)
     = Some (1598439 / 32768)"
    "map_option snd
     (PrepareLoadModel (Some even_profile) idle_backend session50 50 blank_config 0)
     = Some (11457611 / 67108864)"
    by (simp_all add: PrepareLoadModel_def residue_scan.simps residue_overrun_def
        residue_duty_cycle_def residue_throughput_def residue_occupancy_def latency_sla_us_def
        even_profile_def idle_backend_def session50_def float_unfold)
  show ?thesis
    using PrepareLoadModel_residue [OF idle tp wl mb, of blank_config 0]
      idle tp wl mb loop duty range plan
    by - (intro conjI; assumption)
qed

text \<open>
  The claim as stated fails in two ways. Where the forward latency is not monotone, the
  scan stops early: with \<open>uneven_profile\<close>, an SLA of 50 ms and 50 requests per second it
  stops at batch size 2 (\<open>20000 + 40000 + 2000 > 50000\<close>) and returns batch 1, although
  batch size 3 is within \<open>max_batch\<close> and satisfies the constraint
  (\<open>40000 + 5000 + 2000 \<le> 50000\<close>; all these numbers are exact in binary32). And the
  chosen batch need not satisfy the constraint, which the code tests on rounded values:
  with \<open>tight_profile\<close>, an SLA of 150 ms and 7 requests per second batch size 2 passes
  the test (\<open>142857.140625 + 7142.859375 = 150000\<close>) and is returned, although
  \<open>1e6 / 7 + 7142.859375 > 150000\<close>.
\<close>

theorem PrepareLoadModel_residue_not_largest:
  "exec_cycle_us idle_backend = 0 \<and>
   GetMaxThroughput uneven_profile (latency_sla session50) = (3, 60) \<and>
   (0 :: real) < 50 \<and> (50 :: real) < real (unat (60 :: 32 word)) \<and>
   map_option (batch \<circ> fst)
     (PrepareLoadModel (Some uneven_profile) idle_backend session50 50 blank_config 0) = Some 1 \<and>
   (1 :: 32 word) < 3 \<and> (3 :: 32 word) \<le> 3 \<and>
   residue_fits uneven_profile 50 50000 3 \<and>
   (3 - 1) * 1000000 / 50 + GetForwardLatency uneven_profile 3
     + real (unat (GetPreprocessLatency uneven_profile))
     + real (unat (GetPostprocessLatency uneven_profile)) \<le> (50000 :: real) \<and>
   GetMaxThroughput tight_profile (latency_sla session150) = (2, 13) \<and>
   (0 :: real) < 7 \<and> (7 :: real) < real (unat (13 :: 32 word)) \<and>
   map_option (batch \<circ> fst)
     (PrepareLoadModel (Some tight_profile) idle_backend session150 7 blank_config 0) = Some 2 \<and>
   \<not> residue_fits tight_profile 7 150000 2 \<and>
   \<not> (2 - 1) * 1000000 / 7 + GetForwardLatency tight_profile 2
       + real (unat (GetPreprocessLatency tight_profile))
       + real (unat (GetPostprocessLatency tight_profile)) \<le> (150000 :: real)"
  by (simp add: PrepareLoadModel_def residue_scan.simps residue_overrun_def residue_fits_def
      residue_duty_cycle_def residue_throughput_def residue_occupancy_def latency_sla_us_def
      uneven_profile_def tight_profile_def idle_backend_def session50_def session150_def
      float_unfold)

text \<open>
  Claim C2: in the saturating branch the config is to carry
  \<open>memory_usage = profile.memory_usage(max_batch)\<close>. The code computes that value into a
  local variable and then calls \<open>set_memory_usage(fwd_latency)\<close>. In the
  specification's first scenario (SLA 50 ms, 10000 requests per second offered) every
  other field is as claimed, and \<open>memory_usage\<close> is the forward latency 20000 where the
  profile's memory usage of batch 8 is 32768.
\<close>

theorem PrepareLoadModel_saturating_memory_usage:
  "PrepareLoadModel (Some even_profile) idle_backend session50 10000 blank_config 0 =
     Some (blank_config\<lparr>model_session := session50, batch := 8, max_batch := 8,
             forward_latency := 20000, memory_usage := 20000, throughput := 160,
             workload := 160\<rparr>, 1) \<and>
   unat (GetMemoryUsage even_profile 8) = 32768"
  by (simp add: PrepareLoadModel_def even_profile_def idle_backend_def session50_def
      float_to_uint_def float_to_int_def float_unfold)

section \<open>Loading a model: results\<close>

lemma LoadModel_idle:
  "\<not> 0 < exec_cycle_us backend \<Longrightarrow>
   LoadModel config backend =
     backend\<lparr>exec_cycle_us := forward_latency config,
       duty_cycle_us := real (unat (latency_sla (model_session config))) * 1000
                          - forward_latency config,
       model_table_config := model_table_config backend @ [config],
       dirty_model_table := True\<rparr>"
  by (simp add: LoadModel_def Let_def)

lemma LoadModel_static_profile:
  "session_of_info info = Inr sess \<Longrightarrow>
   \<exists>b'. LoadModel_static (Some p) info backend = Inr b' \<and>
     exec_cycle_us b' = exec_cycle_us backend + GetForwardLatency p (info_batch info) \<and>
     duty_cycle_us b' = duty_cycle_us backend + GetForwardLatency p (info_batch info) \<and>
     length (model_table_config b') = length (model_table_config backend) + 1 \<and>
     batch (last (model_table_config b')) = info_batch info \<and>
     forward_latency (last (model_table_config b')) = GetForwardLatency p (info_batch info)"
  by (simp add: LoadModel_static_def Let_def)

text \<open>
  Claim C3, as amended. Let the record have an empty model table and
  \<open>exec_cycle_us = 0\<close>. After the dynamic \<open>LoadModel\<close> of a config the table holds
  exactly that config, \<open>exec_cycle_us\<close> is its \<open>forward_latency\<close> and
  \<open>duty_cycle_us = latency_sla * 1000 - exec_cycle_us\<close>. After the static \<open>LoadModel\<close>
  of a workload-file entry that can be read, with its profile present, the table holds
  exactly one config, \<open>exec_cycle_us = forward(batch)\<close> is that config's
  \<open>forward_latency\<close>, and \<open>duty_cycle_us\<close> has been advanced by the same
  \<open>forward(batch)\<close>: on the record as constructed, \<open>duty_cycle_us = exec_cycle_us\<close>.
\<close>

theorem LoadModel_single_model_cycles:
  assumes "model_table_config backend = []" and "exec_cycle_us backend = 0"
  shows "model_table_config (LoadModel config backend) = [config] \<and>
     exec_cycle_us (LoadModel config backend) = forward_latency config \<and>
     duty_cycle_us (LoadModel config backend) =
       real (unat (latency_sla (model_session config))) * 1000
         - exec_cycle_us (LoadModel config backend) \<and>
     (\<forall>sess. session_of_info info = Inr sess \<longrightarrow>
        (\<exists>b' cfg. LoadModel_static (Some p) info backend = Inr b' \<and>
           model_table_config b' = [cfg] \<and> batch cfg = info_batch info \<and>
           forward_latency cfg = GetForwardLatency p (info_batch info) \<and>
           exec_cycle_us b' = forward_latency cfg \<and>
           duty_cycle_us b' = duty_cycle_us backend + exec_cycle_us b'))"
proof -
  have idle: "\<not> 0 < exec_cycle_us backend" using assms(2) by simp
  have dyn: "model_table_config (LoadModel config backend) = [config] \<and>
     exec_cycle_us (LoadModel config backend) = forward_latency config \<and>
     duty_cycle_us (LoadModel config backend) =
       real (unat (latency_sla (model_session config))) * 1000
         - exec_cycle_us (LoadModel config backend)"
    using assms(1) by (simp add: LoadModel_idle [OF idle])
  have stat: "\<exists>b' cfg. LoadModel_static (Some p) info backend = Inr b' \<and>
           model_table_config b' = [cfg] \<and> batch cfg = info_batch info \<and>
           forward_latency cfg = GetForwardLatency p (info_batch info) \<and>
           exec_cycle_us b' = forward_latency cfg \<and>
           duty_cycle_us b' = duty_cycle_us backend + exec_cycle_us b'"
    if "session_of_info info = Inr sess" for sess
  proof -
    from LoadModel_static_profile [OF that, of p backend]
    obtain b' where t: "LoadModel_static (Some p) info backend = Inr b'"
      "exec_cycle_us b' = exec_cycle_us backend + GetForwardLatency p (info_batch info)"
      "duty_cycle_us b' = duty_cycle_us backend + GetForwardLatency p (info_batch info)"
      "length (model_table_config b') = length (model_table_config backend) + 1"
      "batch (last (model_table_config b')) = info_batch info"
      "forward_latency (last (model_table_config b')) = GetForwardLatency p (info_batch info)"
      by blast
    from t(4) assms(1) obtain cfg where c: "model_table_config b' = [cfg]"
      by (cases "model_table_config b'") simp_all
    show ?thesis using t c assms(2) by simp
  qed
  from dyn stat show ?thesis by blast
qed

theorem LoadModel_single_model_cycles_witness:
  "model_table_config idle_backend = [] \<and> exec_cycle_us idle_backend = 0 \<and>
   session_of_info entry50 = Inr session50 \<and>
   model_table_config (LoadModel (blank_config\<lparr>batch := 2, forward_latency := 7000\<rparr>) idle_backend)
     = [blank_config\<lparr>batch := 2, forward_latency := 7000\<rparr>] \<and>
   exec_cycle_us (LoadModel (blank_config\<lparr>batch := 2, forward_latency := 7000\<rparr>) idle_backend)
     = 7000 \<and>
   duty_cycle_us (LoadModel (blank_config\<lparr>batch := 2, forward_latency := 7000\<rparr>) idle_backend)
     = 43000 \<and>
   map_sum id (\<lambda>b'. (length (model_table_config b'), exec_cycle_us b', duty_cycle_us b'))
     (LoadModel_static (Some even_profile) entry50 idle_backend) = Inr (1, 11000, 11000)"
  using LoadModel_single_model_cycles
    [of idle_backend "blank_config\<lparr>batch := 2, forward_latency := 7000\<rparr>" entry50 even_profile]
  by (simp add: LoadModel_def LoadModel_static_def session_of_info_def entry50_def
      session50_def blank_config_def idle_backend_def even_profile_def Let_def)

text \<open>
  The claim as stated fails for the static loader: after loading \<open>entry50\<close> (SLA 50 ms,
  batch 4, forward latency 11000) into the record as constructed, the single-model
  record has \<open>exec_cycle_us = duty_cycle_us = 11000\<close>, where
  \<open>sla_us - exec_cycle_us = 39000\<close>.
\<close>

theorem LoadModel_static_duty_cycle_not_sla_minus_exec:
  "map_sum id (\<lambda>b'. (length (model_table_config b'), exec_cycle_us b', duty_cycle_us b'))
     (LoadModel_static (Some even_profile) entry50 idle_backend) = Inr (1, 11000, 11000) \<and>
   real (unat (info_latency_sla entry50)) * 1000 - 11000 \<noteq> (11000 :: real)"
  by (simp add: LoadModel_static_def session_of_info_def entry50_def idle_backend_def
      even_profile_def Let_def)

text \<open>
  Claim C8: a missing profile is to be handled without reading through the null
  pointer. \<open>PrepareLoadModel\<close> does so and returns batch 0. The static \<open>LoadModel\<close> has no
  test: for the readable entry \<open>entry50\<close> and a missing profile it dereferences the null
  pointer.
\<close>

theorem missing_profile_handling:
  "PrepareLoadModel None backend sess wl config occupancy
     = Some (config\<lparr>batch := 0\<rparr>, occupancy) \<and>
   LoadModel_static None entry50 backend = Inl NullPointerDereference"
  by (simp add: PrepareLoadModel_def LoadModel_static_def session_of_info_def entry50_def)

section \<open>Model executor: results\<close>

lemma RemoveTask_fields:
  "input_queue (RemoveTask a ex) = input_queue ex"
  "batch_id (RemoveTask a ex) = batch_id ex"
  "profile (RemoveTask a ex) = profile ex"
  "model_batch (RemoveTask a ex) = model_batch ex"
  "model_max_batch (RemoveTask a ex) = model_max_batch ex"
  by (simp_all add: RemoveTask_def Let_def)

lemma process_input_batch_id:
  "process_input avo finish inp ex bt = Inr (ex', bt') \<Longrightarrow>
   batch_id ex' = batch_id ex \<and> bt_batch_id bt' = bt_batch_id bt"
  by (auto simp: process_input_def RemoveTask_fields AppendInput_def Let_def
      split: option.splits if_splits prod.splits)

lemma process_input_inputs:
  "process_input avo finish inp ex bt = Inr (ex', bt') \<Longrightarrow>
   bt_inputs bt' = bt_inputs bt \<or>
   (bt_inputs bt' = bt_inputs bt @ [inp] \<and> (\<forall>f. finish = Some f \<longrightarrow> f \<le> deadline inp))"
  by (auto simp: process_input_def AppendInput_def Let_def
      split: option.splits if_splits prod.splits)

lemma GetBatchInput_loop_stop:
  "\<not> batch_size bt < n \<or> input_queue ex = [] \<Longrightarrow>
   GetBatchInput_loop avo n finish ex bt = Inr (ex, bt)"
  by (subst GetBatchInput_loop.simps) auto

lemma GetBatchInput_loop_step:
  "batch_size bt < n \<Longrightarrow> input_queue ex = inp # rest \<Longrightarrow>
   GetBatchInput_loop avo n finish ex bt =
     (case process_input avo finish inp (ex\<lparr>input_queue := rest\<rparr>) bt of
        Inl e \<Rightarrow> Inl e
      | Inr (ex', bt') \<Rightarrow> GetBatchInput_loop avo n finish ex' bt')"
  by (subst GetBatchInput_loop.simps) simp

lemma GetBatchInput_loop_cases:
  assumes "GetBatchInput_loop avo n finish ex bt = Inr (ex', bt')"
  obtains (stop) "ex' = ex" "bt' = bt"
  | (step) inp rest ex1 bt1 where "batch_size bt < n" "input_queue ex = inp # rest"
      "process_input avo finish inp (ex\<lparr>input_queue := rest\<rparr>) bt = Inr (ex1, bt1)"
      "GetBatchInput_loop avo n finish ex1 bt1 = Inr (ex', bt')"
proof (cases "batch_size bt < n \<and> input_queue ex \<noteq> []")
  case False
  then have "GetBatchInput_loop avo n finish ex bt = Inr (ex, bt)"
    by (intro GetBatchInput_loop_stop) auto
  with assms stop show ?thesis by simp
next
  case True
  then obtain inp rest where q: "input_queue ex = inp # rest"
    by (cases "input_queue ex") auto
  from True have lt: "batch_size bt < n" by simp
  from assms obtain ex1 bt1 where
    "process_input avo finish inp (ex\<lparr>input_queue := rest\<rparr>) bt = Inr (ex1, bt1)"
    "GetBatchInput_loop avo n finish ex1 bt1 = Inr (ex', bt')"
    by (auto simp: GetBatchInput_loop_step [OF lt q] split: sum.splits)
  with lt q step show ?thesis by blast
qed

lemma GetBatchInput_loop_batch_id:
  "GetBatchInput_loop avo n finish ex bt = Inr (ex', bt') \<Longrightarrow>
   batch_id ex' = batch_id ex \<and> bt_batch_id bt' = bt_batch_id bt"
proof (induction avo n finish ex bt rule: GetBatchInput_loop.induct)
  case (1 avo n finish ex bt)
  from "1.prems" show ?case
  proof (cases rule: GetBatchInput_loop_cases)
    case stop
    then show ?thesis by simp
  next
    case (step inp rest ex1 bt1)
    from "1.IH" [OF step(1) step(2) step(3) refl step(4)]
    have "batch_id ex' = batch_id ex1 \<and> bt_batch_id bt' = bt_batch_id bt1" .
    with process_input_batch_id [OF step(3)] show ?thesis by simp
  qed
qed

text \<open>
  Every input that the loop appends to the batch has its deadline at \<open>finish\<close> or later.
\<close>

lemma GetBatchInput_loop_deadlines:
  "GetBatchInput_loop avo n (Some f) ex bt = Inr (ex', bt') \<Longrightarrow>
   \<forall>i \<in> set (bt_inputs bt). f \<le> deadline i \<Longrightarrow>
   \<forall>i \<in> set (bt_inputs bt'). f \<le> deadline i"
proof (induction avo n "Some f" ex bt rule: GetBatchInput_loop.induct)
  case (1 avo n ex bt)
  from "1.prems"(1) show ?case
  proof (cases rule: GetBatchInput_loop_cases)
    case stop
    with "1.prems"(2) show ?thesis by simp
  next
    case (step inp rest ex1 bt1)
    have "\<forall>i \<in> set (bt_inputs bt1). f \<le> deadline i"
      using process_input_inputs [OF step(3)] "1.prems"(2) by auto
    with "1.hyps" [OF step(1) step(2) step(3) refl step(4)] show ?thesis .
  qed
qed

lemma GetBatchInput_loop_pop:
  assumes "batch_size bt < n" "input_queue ex = inp # rest"
    "processing_tasks ex (in_tid inp) = Some a"
  shows "(let popped = ex\<lparr>input_queue := rest\<rparr>;
          task = (heap ex a)\<lparr>timer := timer (heap ex a) @ [''exec'']\<rparr>;
          virtual = AddVirtualOutput task (index inp);
          marked = popped\<lparr>heap := (heap ex)(a := fst virtual)\<rparr>
      in GetBatchInput_loop AddVirtualOutput n finish ex bt =
         (if status (heap ex a) \<noteq> CTRL_OK \<or> (\<exists>f. finish = Some f \<and> deadline inp < f)
          then GetBatchInput_loop AddVirtualOutput n finish
                 (if snd virtual then RemoveTask a marked else marked) bt
          else GetBatchInput_loop AddVirtualOutput n finish
                 (popped\<lparr>heap := (heap ex)(a := task)\<rparr>) (AppendInput inp a bt)))"
proof -
  let ?popped = "ex\<lparr>input_queue := rest\<rparr>"
  let ?task = "(heap ex a)\<lparr>timer := timer (heap ex a) @ [''exec'']\<rparr>"
  let ?virtual = "AddVirtualOutput ?task (index inp)"
  let ?marked = "?popped\<lparr>heap := (heap ex)(a := fst ?virtual)\<rparr>"
  have step: "process_input AddVirtualOutput finish inp ?popped bt =
      (if status (heap ex a) \<noteq> CTRL_OK \<or> (\<exists>f. finish = Some f \<and> deadline inp < f)
       then Inr (if snd ?virtual then RemoveTask a ?marked else ?marked, bt)
       else Inr (?popped\<lparr>heap := (heap ex)(a := ?task)\<rparr>, AppendInput inp a bt))"
    using assms(3)
    by (cases finish) (simp_all add: process_input_def Let_def split: prod.splits)
  show ?thesis
  proof (cases "status (heap ex a) \<noteq> CTRL_OK \<or> (\<exists>f. finish = Some f \<and> deadline inp < f)")
    case True
    then show ?thesis
      unfolding Let_def GetBatchInput_loop_step [OF assms(1,2)] step by (simp only: if_True sum.case prod.case)
  next
    case False
    then show ?thesis
      unfolding Let_def GetBatchInput_loop_step [OF assms(1,2)] step by (simp only: if_False sum.case prod.case)
  qed
qed

lemmas executor_examples =
  one_input_executor_def fresh_executor_def empty_batch_def input7_def task7_def
  half_profile_def even_profile_def counting_AddVirtualOutput_def counting_AddOutput_def
  echo_Forward_def

lemmas executor_unfold =
  new_batch_task_def GetBatchInput_def GetBatchInput_loop.simps planned_batch_size_def finish_time_def
  forward_latency_argument_def batch_size_def process_input_def AppendInput_def
  RemoveTask_def float_to_int_def Let_def

text \<open>
  Claim C4, as amended. \<open>GetBatchInput\<close> runs its loop with
  \<open>finish = now + int(forward_latency(batch_size))\<close> when a profile is present (the
  latency is cut to whole microseconds) and with no \<open>finish\<close> otherwise. In the loop,
  while the batch holds fewer than \<open>batch_size\<close> inputs, the input \<open>inp\<close> at the top of
  the queue is popped and its task is looked up and timed. If the task's status is not
  \<open>CTRL_OK\<close>, or a profile is present and \<open>inp\<close>'s deadline is earlier than \<open>finish\<close>,
  a virtual output is recorded at \<open>inp\<close>'s index, the task is removed to postprocess
  when that call reports the outputs complete, and the batch is unchanged; otherwise
  \<open>inp\<close> is appended to the batch. Consequently, when a profile is present, every input
  of the batch that \<open>GetBatchInput\<close> fills has its deadline at or after
  \<open>now + int(forward_latency(batch_size))\<close>.
\<close>

theorem GetBatchInput_filter:
  "finish_time now ex =
     map_option
       (\<lambda>p. now + real_of_int (float_to_int (GetForwardLatency p (forward_latency_argument ex))))
       (profile ex) \<and>
   GetBatchInput AddVirtualOutput now ex bt =
     GetBatchInput_loop AddVirtualOutput (planned_batch_size ex) (finish_time now ex) ex bt \<and>
   (\<forall>a rest. batch_size bt < n \<and> input_queue ex = inp # rest \<and>
       processing_tasks ex (in_tid inp) = Some a \<longrightarrow>
     (let popped = ex\<lparr>input_queue := rest\<rparr>;
          task = (heap ex a)\<lparr>timer := timer (heap ex a) @ [''exec'']\<rparr>;
          virtual = AddVirtualOutput task (index inp);
          marked = popped\<lparr>heap := (heap ex)(a := fst virtual)\<rparr>
      in GetBatchInput_loop AddVirtualOutput n finish ex bt =
         (if status (heap ex a) \<noteq> CTRL_OK \<or> (\<exists>f. finish = Some f \<and> deadline inp < f)
          then GetBatchInput_loop AddVirtualOutput n finish
                 (if snd virtual then RemoveTask a marked else marked) bt
          else GetBatchInput_loop AddVirtualOutput n finish
                 (popped\<lparr>heap := (heap ex)(a := task)\<rparr>) (AppendInput inp a bt)))) \<and>
   (\<forall>p ex' bt'. profile ex = Some p \<and> bt_inputs bt = [] \<and>
       GetBatchInput AddVirtualOutput now ex bt = Inr (ex', bt') \<longrightarrow>
     (\<forall>i \<in> set (bt_inputs bt').
        now + real_of_int (float_to_int (GetForwardLatency p (forward_latency_argument ex)))
          \<le> deadline i))"
proof (intro conjI allI impI)
  show "finish_time now ex =
     map_option
       (\<lambda>p. now + real_of_int (float_to_int (GetForwardLatency p (forward_latency_argument ex))))
       (profile ex)"
    by (cases "profile ex") (simp_all add: finish_time_def)
next
  show "GetBatchInput AddVirtualOutput now ex bt =
     GetBatchInput_loop AddVirtualOutput (planned_batch_size ex) (finish_time now ex) ex bt"
    by (rule GetBatchInput_def)
next
  fix a rest
  assume "batch_size bt < n \<and> input_queue ex = inp # rest \<and>
       processing_tasks ex (in_tid inp) = Some a"
  then show "(let popped = ex\<lparr>input_queue := rest\<rparr>;
          task = (heap ex a)\<lparr>timer := timer (heap ex a) @ [''exec'']\<rparr>;
          virtual = AddVirtualOutput task (index inp);
          marked = popped\<lparr>heap := (heap ex)(a := fst virtual)\<rparr>
      in GetBatchInput_loop AddVirtualOutput n finish ex bt =
         (if status (heap ex a) \<noteq> CTRL_OK \<or> (\<exists>f. finish = Some f \<and> deadline inp < f)
          then GetBatchInput_loop AddVirtualOutput n finish
                 (if snd virtual then RemoveTask a marked else marked) bt
          else GetBatchInput_loop AddVirtualOutput n finish
                 (popped\<lparr>heap := (heap ex)(a := task)\<rparr>) (AppendInput inp a bt)))"
    using GetBatchInput_loop_pop [of bt n ex inp rest a AddVirtualOutput finish] by blast
next
  fix p ex' bt'
  assume h: "profile ex = Some p \<and> bt_inputs bt = [] \<and>
       GetBatchInput AddVirtualOutput now ex bt = Inr (ex', bt')"
  let ?f = "now + real_of_int (float_to_int (GetForwardLatency p (forward_latency_argument ex)))"
  have fin: "finish_time now ex = Some ?f"
    using h by (simp add: finish_time_def)
  have "GetBatchInput_loop AddVirtualOutput (planned_batch_size ex) (Some ?f) ex bt = Inr (ex', bt')"
    using h fin by (simp add: GetBatchInput_def)
  moreover have "\<forall>i \<in> set (bt_inputs bt). ?f \<le> deadline i" using h by simp
  ultimately show "\<forall>i \<in> set (bt_inputs bt'). ?f \<le> deadline i"
    by (rule GetBatchInput_loop_deadlines)
qed

theorem GetBatchInput_filter_witness:
  "batch_size empty_batch < 1 \<and> input_queue one_input_executor = input7 # [] \<and>
   processing_tasks one_input_executor (in_tid input7) = Some 0 \<and>
   profile one_input_executor = Some half_profile \<and> bt_inputs empty_batch = [] \<and>
   finish_time 0 one_input_executor = Some 5000 \<and>
   GetBatchInput counting_AddVirtualOutput 0 one_input_executor empty_batch
     = Inr (projr (GetBatchInput counting_AddVirtualOutput 0 one_input_executor empty_batch)) \<and>
   map_sum id (bt_inputs \<circ> snd)
     (GetBatchInput counting_AddVirtualOutput 0 one_input_executor empty_batch) = Inr [input7] \<and>
   5000 \<le> deadline input7 \<and>
   finish_time 1 one_input_executor = Some 5001 \<and>
   map_sum id (\<lambda>r. (bt_inputs (snd r), input_queue (fst r), task_queue (fst r),
       processing_tasks (fst r) 7, outputs (heap (fst r) 0), stage (heap (fst r) 0)))
     (GetBatchInput counting_AddVirtualOutput 1 one_input_executor empty_batch)
     = Inr ([], [], [0], None, [(0, VirtualOutput)], kPostprocess)"
  using GetBatchInput_filter [where bt = empty_batch and n = 1 and ex = one_input_executor
      and inp = input7 and AddVirtualOutput = counting_AddVirtualOutput
      and finish = "Some 5000" and now = 0]
    GetBatchInput_filter [where bt = empty_batch and n = 1 and ex = one_input_executor
      and inp = input7 and AddVirtualOutput = counting_AddVirtualOutput
      and finish = "Some 5001" and now = 1]
  by (simp add: executor_unfold executor_examples)

text \<open>
  The claim as stated fails by the fraction of a microsecond that \<open>int(latency)\<close>
  discards: with \<open>forward(1) = 5000.5\<close> and the batch started at time 0, an input whose
  deadline is 5000 is not earlier than \<open>finish = 5000\<close> and is included in the batch,
  though its deadline is earlier than \<open>0 + forward(1)\<close>.
\<close>

theorem GetBatchInput_deadline_before_latency:
  "profile one_input_executor = Some half_profile \<and>
   forward_latency_argument one_input_executor = 1 \<and>
   status (heap one_input_executor 0) = CTRL_OK \<and>
   map_sum id (bt_inputs \<circ> snd)
     (GetBatchInput counting_AddVirtualOutput 0 one_input_executor empty_batch) = Inr [input7] \<and>
   deadline input7 < 0 + GetForwardLatency half_profile 1"
  by (simp add: executor_unfold executor_examples)

text \<open>
  Claim C5: with a profile, every batch size passed to \<open>GetForwardLatency\<close> is to lie
  in \<open>[1, max_known_batch]\<close>, also when \<open>Execute\<close> runs on an empty input queue.
  \<open>GetBatchInput\<close> computes \<open>batch_size = min(input_queue_.size(), model_->batch())\<close>
  and calls \<open>GetForwardLatency(batch_size)\<close> before it looks at the queue: on an empty
  queue the argument is 0.
\<close>

theorem GetBatchInput_latency_argument_empty_queue:
  "planned_batch_size (ex\<lparr>input_queue := []\<rparr>) = 0 \<and>
   forward_latency_argument (ex\<lparr>input_queue := []\<rparr>) = 0 \<and>
   finish_time now (ex\<lparr>input_queue := [], profile := Some p\<rparr>)
     = Some (now + real_of_int (float_to_int (GetForwardLatency p 0))) \<and>
   input_queue fresh_executor = [] \<and> profile fresh_executor = Some half_profile \<and>
   forward_latency_argument fresh_executor = 0"
  by (simp add: planned_batch_size_def forward_latency_argument_def finish_time_def
      fresh_executor_def Let_def)

text \<open>
  Claim C7, as amended. \<open>RemoveTask\<close> sets the task's stage to postprocess, pushes the
  task into the shared postprocess queue and erases its id from the processing map. A
  second call with the same task leaves the tasks and the processing map as they are
  after the first call, and pushes the task into the postprocess queue once more.
\<close>

theorem RemoveTask_twice:
  "stage (heap (RemoveTask a ex) a) = kPostprocess \<and>
   task_queue (RemoveTask a ex) = task_queue ex @ [a] \<and>
   processing_tasks (RemoveTask a ex) = (processing_tasks ex)(tid (heap ex a) := None) \<and>
   heap (RemoveTask a (RemoveTask a ex)) = heap (RemoveTask a ex) \<and>
   processing_tasks (RemoveTask a (RemoveTask a ex)) = processing_tasks (RemoveTask a ex) \<and>
   task_queue (RemoveTask a (RemoveTask a ex)) = task_queue (RemoveTask a ex) @ [a]"
  by (simp add: RemoveTask_def Let_def)

text \<open>
  The claim as stated fails on the postprocess queue: after one call it holds the task at
  address 0 once, after the second call twice.
\<close>

theorem RemoveTask_pushes_again:
  "task_queue (RemoveTask 0 one_input_executor) = [0] \<and>
   task_queue (RemoveTask 0 (RemoveTask 0 one_input_executor)) = [0, 0] \<and>
   task_queue (RemoveTask 0 (RemoveTask 0 one_input_executor))
     \<noteq> task_queue (RemoveTask 0 one_input_executor)"
  by (simp add: RemoveTask_def one_input_executor_def fresh_executor_def Let_def)

lemma mset_push_inputs:
  "mset (foldl (\<lambda>q inp. push_input inp q) q xs) = mset q + mset xs"
  by (induction xs arbitrary: q) (simp_all add: push_input_def)

lemma sorted_push_inputs:
  "sorted (map deadline q) \<Longrightarrow>
   sorted (map deadline (foldl (\<lambda>q inp. push_input inp q) q xs))"
  by (induction xs arbitrary: q) (simp_all add: push_input_def sorted_insort_key)

text \<open>
  Claim C10, as amended. \<open>AddTask\<close> has no failing outcome: it returns normally for every
  task. It pushes each of the task's inputs into the input queue, which stays ordered by
  deadline. If no task with the same id is in the processing map, the task is inserted
  under its id; if one is, the processing map is left as it is.
\<close>

theorem AddTask_outcome:
  "\<exists>ex'. AddTask a ex = Inr ex' \<and>
     mset (input_queue ex') = mset (input_queue ex) + mset (inputs (heap ex a)) \<and>
     (sorted (map deadline (input_queue ex)) \<longrightarrow> sorted (map deadline (input_queue ex'))) \<and>
     (processing_tasks ex (tid (heap ex a)) = None \<longrightarrow>
        processing_tasks ex' = (processing_tasks ex)(tid (heap ex a) \<mapsto> a)) \<and>
     (processing_tasks ex (tid (heap ex a)) \<noteq> None \<longrightarrow>
        processing_tasks ex' = processing_tasks ex) \<and>
     heap ex' = heap ex \<and> task_queue ex' = task_queue ex"
  by (cases "processing_tasks ex (tid (heap ex a))")
    (simp_all add: AddTask_def Let_def mset_push_inputs sorted_push_inputs)

theorem AddTask_outcome_witness:
  "sorted (map deadline (input_queue fresh_executor)) \<and>
   processing_tasks fresh_executor (tid (heap fresh_executor 0)) = None \<and>
   map_sum id (\<lambda>ex'. (input_queue ex', processing_tasks ex' 7)) (AddTask 0 fresh_executor)
     = Inr ([input7], Some 0) \<and>
   processing_tasks one_input_executor (tid (heap one_input_executor 1)) \<noteq> None \<and>
   map_sum id (\<lambda>ex'. (input_queue ex', processing_tasks ex' 7)) (AddTask 1 one_input_executor)
     = Inr ([input7, input7], Some 0)"
  using AddTask_outcome [of 0 fresh_executor] AddTask_outcome [of 1 one_input_executor]
  by (simp add: AddTask_def push_input_def executor_examples)

text \<open>
  The claim as stated fails on a duplicate task id: the task at address 1 has the id 7
  of the task at address 0, which is in the processing map, and \<open>AddTask\<close> returns
  normally, with the map unchanged and the inputs of the second task in the queue.
\<close>

theorem AddTask_duplicate_does_not_fail:
  "processing_tasks one_input_executor (tid (heap one_input_executor 1)) = Some 0 \<and>
   \<not> isl (AddTask 1 one_input_executor) \<and>
   map_sum id (\<lambda>ex'. (input_queue ex', processing_tasks ex' 7)) (AddTask 1 one_input_executor)
     = Inr ([input7, input7], Some 0)"
  by (simp add: AddTask_def push_input_def executor_examples)

lemma fanout_batch_id:
  "fanout ao outs ts ex = Inr ex' \<Longrightarrow> batch_id ex' = batch_id ex"
proof (induction outs arbitrary: ts ex)
  case Nil
  then show ?case by simp
next
  case (Cons out outs)
  show ?case
  proof (cases ts)
    case Nil
    with Cons.prems show ?thesis by simp
  next
    case (Cons a rest)
    obtain task' complete where r: "ao (heap ex a) out = (task', complete)"
      by (cases "ao (heap ex a) out")
    let ?ex1 = "ex\<lparr>heap := (heap ex)(a := task')\<rparr>"
    let ?ex2 = "if complete then RemoveTask a ?ex1 else ?ex1"
    from Cons.prems Cons r have "fanout ao outs rest ?ex2 = Inr ex'"
      by (simp add: Let_def split: if_splits)
    then have "batch_id ex' = batch_id ?ex2" by (rule Cons.IH)
    then show ?thesis by (simp add: RemoveTask_fields)
  qed
qed

lemma GetBatchInput_batch_id:
  "GetBatchInput avo now ex bt = Inr (ex', bt') \<Longrightarrow>
   batch_id ex' = batch_id ex \<and> bt_batch_id bt' = bt_batch_id bt"
  unfolding GetBatchInput_def by (rule GetBatchInput_loop_batch_id)

lemma GetBatchInput_empty_queue:
  "input_queue ex = [] \<Longrightarrow> GetBatchInput avo now ex bt = Inr (ex, bt)"
  unfolding GetBatchInput_def by (rule GetBatchInput_loop_stop) simp

lemma Execute_cases:
  assumes "Execute avo ao fw now ex = Inr (ex', bt, forwarded)"
  obtains (empty) "GetBatchInput avo now (ex\<lparr>batch_id := batch_id ex + 1\<rparr>) (new_batch_task (batch_id ex) (model_max_batch ex))
        = Inr (ex', bt)" "bt_inputs bt = []" "\<not> forwarded"
  | (forward) ex2 bt2 outs heap' where
      "GetBatchInput avo now (ex\<lparr>batch_id := batch_id ex + 1\<rparr>) (new_batch_task (batch_id ex) (model_max_batch ex))
        = Inr (ex2, bt2)" "bt_inputs bt2 \<noteq> []" "fw bt2 (heap ex2) = (outs, heap')"
      "bt = bt2\<lparr>bt_outputs := outs\<rparr>"
      "fanout ao outs (bt_tasks bt2) (ex2\<lparr>heap := heap'\<rparr>) = Inr ex'" "forwarded"
proof -
  let ?G = "GetBatchInput avo now (ex\<lparr>batch_id := batch_id ex + 1\<rparr>) (new_batch_task (batch_id ex) (model_max_batch ex))"
  from assms obtain ex2 bt2 where g: "?G = Inr (ex2, bt2)"
    by (cases ?G) (auto simp: Execute_def new_batch_task_def Let_def)
  show ?thesis
  proof (cases "bt_inputs bt2 = []")
    case True
    with assms g have "ex' = ex2" "bt = bt2" "\<not> forwarded"
      by (simp_all add: Execute_def new_batch_task_def batch_size_def Let_def)
    with g True empty show ?thesis by simp
  next
    case False
    obtain outs heap' where f: "fw bt2 (heap ex2) = (outs, heap')"
      by (cases "fw bt2 (heap ex2)")
    from assms g False f
    have "fanout ao outs (bt_tasks bt2) (ex2\<lparr>heap := heap'\<rparr>) = Inr ex'"
      "bt = bt2\<lparr>bt_outputs := outs\<rparr>" "forwarded"
      by (auto simp: Execute_def new_batch_task_def batch_size_def Let_def split: sum.splits)
    with g False f forward show ?thesis by blast
  qed
qed

lemma Execute_ids:
  assumes "Execute avo ao fw now ex = Inr (ex', bt, forwarded)"
  shows "bt_batch_id bt = batch_id ex \<and> batch_id ex' = batch_id ex + 1"
  using assms
proof (cases rule: Execute_cases)
  case empty
  from GetBatchInput_batch_id [OF empty(1)] show ?thesis
    by (simp add: new_batch_task_def)
next
  case (forward ex2 bt2 outs heap')
  from GetBatchInput_batch_id [OF forward(1)] fanout_batch_id [OF forward(5)] forward(4)
  show ?thesis by (simp add: new_batch_task_def)
qed

text \<open>
  Claim C9, as amended. Every \<open>Execute\<close> that returns gives its batch the value of the
  executor's 64-bit batch counter and leaves the counter one higher, whatever else it
  does: the batch id of the next \<open>Execute\<close> is the previous one plus 1, and it is greater
  unless the counter wraps around. An \<open>Execute\<close> whose batch is empty after batch
  formation calls no forward pass, and its effects are the allocation of the batch id and
  those of batch formation (inputs popped, virtual outputs recorded, tasks removed to
  postprocess); when the input queue is empty at entry, the only effect is the allocation
  of the batch id.
\<close>

theorem Execute_batch_ids:
  assumes "Execute avo ao fw now ex = Inr (ex', bt, forwarded)"
  shows "bt_batch_id bt = batch_id ex \<and> batch_id ex' = batch_id ex + 1 \<and>
     (batch_id ex \<noteq> - 1 \<longrightarrow> bt_batch_id bt < batch_id ex') \<and>
     (\<forall>later now2 ex2 bt2 forwarded2.
        batch_id later = batch_id ex' \<and>
        Execute avo ao fw now2 later = Inr (ex2, bt2, forwarded2) \<longrightarrow>
        bt_batch_id bt2 = bt_batch_id bt + 1) \<and>
     (forwarded \<longleftrightarrow> bt_inputs bt \<noteq> []) \<and>
     (\<not> forwarded \<longrightarrow>
        GetBatchInput avo now (ex\<lparr>batch_id := batch_id ex + 1\<rparr>) (new_batch_task (batch_id ex) (model_max_batch ex))
          = Inr (ex', bt)) \<and>
     (input_queue ex = [] \<longrightarrow> \<not> forwarded \<and> ex' = ex\<lparr>batch_id := batch_id ex + 1\<rparr>)"
proof -
  note ids = Execute_ids [OF assms]
  have incr: "bt_batch_id bt < batch_id ex'" if "batch_id ex \<noteq> - 1"
  proof -
    have "\<not> batch_id ex + 1 \<le> batch_id ex"
      using that by (simp add: inc_less_eq_self_iff_eq)
    then have "batch_id ex < batch_id ex + 1" by simp
    with ids show ?thesis by simp
  qed
  have next_id: "bt_batch_id bt2 = bt_batch_id bt + 1"
    if "batch_id later = batch_id ex'"
      "Execute avo ao fw now2 later = Inr (ex2, bt2, forwarded2)"
    for later now2 ex2 bt2 forwarded2
    using Execute_ids [OF that(2)] that(1) ids by simp
  have shape: "(forwarded \<longleftrightarrow> bt_inputs bt \<noteq> []) \<and>
     (\<not> forwarded \<longrightarrow>
        GetBatchInput avo now (ex\<lparr>batch_id := batch_id ex + 1\<rparr>) (new_batch_task (batch_id ex) (model_max_batch ex))
          = Inr (ex', bt))"
    using assms by (cases rule: Execute_cases) simp_all
  have idle: "\<not> forwarded \<and> ex' = ex\<lparr>batch_id := batch_id ex + 1\<rparr>" if "input_queue ex = []"
  proof -
    have g: "GetBatchInput avo now (ex\<lparr>batch_id := batch_id ex + 1\<rparr>) (new_batch_task (batch_id ex) (model_max_batch ex))
        = Inr (ex\<lparr>batch_id := batch_id ex + 1\<rparr>, new_batch_task (batch_id ex) (model_max_batch ex))"
      using that by (intro GetBatchInput_empty_queue) simp
    from assms show ?thesis
      by (cases rule: Execute_cases) (use g in \<open>simp_all add: new_batch_task_def\<close>)
  qed
  from ids incr next_id shape idle show ?thesis by blast
qed

theorem Execute_batch_ids_witness:
  "Execute counting_AddVirtualOutput counting_AddOutput echo_Forward 0 one_input_executor
     = Inr (projr (Execute counting_AddVirtualOutput counting_AddOutput echo_Forward 0
              one_input_executor)) \<and>
   batch_id one_input_executor \<noteq> - 1 \<and>
   map_sum id (\<lambda>r. (bt_batch_id (fst (snd r)), batch_id (fst r), snd (snd r),
       bt_inputs (fst (snd r))))
     (Execute counting_AddVirtualOutput counting_AddOutput echo_Forward 0 one_input_executor)
     = Inr (0, 1, True, [input7]) \<and>
   map_sum id (\<lambda>r. bt_batch_id (fst (snd r)))
     (Execute counting_AddVirtualOutput counting_AddOutput echo_Forward 9
        (fst (projr (Execute counting_AddVirtualOutput counting_AddOutput echo_Forward 0
                       one_input_executor))))
     = Inr 1 \<and>
   map_sum id (\<lambda>r. (bt_batch_id (fst (snd r)), batch_id (fst r), snd (snd r),
       bt_inputs (fst (snd r))))
     (Execute counting_AddVirtualOutput counting_AddOutput echo_Forward 1 one_input_executor)
     = Inr (0, 1, False, []) \<and>
   input_queue fresh_executor = [] \<and>
   Execute counting_AddVirtualOutput counting_AddOutput echo_Forward 0 fresh_executor
     = Inr (fresh_executor\<lparr>batch_id := 1\<rparr>, new_batch_task 0 8, False)"
proof -
  let ?E = "Execute counting_AddVirtualOutput counting_AddOutput echo_Forward 0 one_input_executor"
  have run: "?E = Inr (fst (projr ?E), fst (snd (projr ?E)), snd (snd (projr ?E)))"
    by (simp add: Execute_def executor_unfold executor_examples)
  have returns: "?E = Inr (projr ?E)"
    by (simp add: Execute_def executor_unfold executor_examples)
  have idle: "Execute counting_AddVirtualOutput counting_AddOutput echo_Forward 0 fresh_executor
     = Inr (fresh_executor\<lparr>batch_id := 1\<rparr>, new_batch_task 0 8, False)"
    by (simp add: Execute_def executor_unfold executor_examples)
  have v1: "batch_id one_input_executor \<noteq> - 1"
    by (simp add: executor_examples)
  have v2: "map_sum id (\<lambda>r. (bt_batch_id (fst (snd r)), batch_id (fst r), snd (snd r),
       bt_inputs (fst (snd r)))) ?E = Inr (0, 1, True, [input7])"
    by (simp add: Execute_def executor_unfold executor_examples)
  have v3: "map_sum id (\<lambda>r. (bt_batch_id (fst (snd r)), batch_id (fst r), snd (snd r),
       bt_inputs (fst (snd r))))
     (Execute counting_AddVirtualOutput counting_AddOutput echo_Forward 1 one_input_executor)
     = Inr (0, 1, False, [])"
    by (simp add: Execute_def executor_unfold executor_examples)
  have v4: "input_queue fresh_executor = []"
    by (simp add: executor_examples)
  have v5: "map_sum id (\<lambda>r. bt_batch_id (fst (snd r)))
     (Execute counting_AddVirtualOutput counting_AddOutput echo_Forward 9 (fst (projr ?E)))
     = Inr 1"
    by (simp add: Execute_def executor_unfold executor_examples)
  show ?thesis
    using Execute_batch_ids [OF run] Execute_batch_ids [OF idle] returns v1 v2 v3 v4 v5 idle
    by - (intro conjI; assumption)
qed

text \<open>
  The claim as stated fails where the batch is empty because its inputs were filtered
  out: started at time 1, \<open>Execute\<close> finds the deadline 5000 of the queued input earlier
  than \<open>finish = 5001\<close>, calls no forward pass, and has popped the input, recorded a
  virtual output and moved the task to the postprocess queue, beside allocating the
  batch id.
\<close>

theorem Execute_empty_batch_has_effects:
  "input_queue one_input_executor = [input7] \<and> task_queue one_input_executor = [] \<and>
   processing_tasks one_input_executor 7 = Some 0 \<and>
   outputs (heap one_input_executor 0) = [] \<and>
   stage (heap one_input_executor 0) = kExecute \<and>
   map_sum id (\<lambda>r. (snd (snd r), bt_inputs (fst (snd r)), batch_id (fst r),
       input_queue (fst r), task_queue (fst r), processing_tasks (fst r) 7,
       outputs (heap (fst r) 0), stage (heap (fst r) 0)))
     (Execute counting_AddVirtualOutput counting_AddOutput echo_Forward 1 one_input_executor)
     = Inr (False, [], 1, [], [0], None, [(0, VirtualOutput)], kPostprocess)"
  by (simp add: Execute_def executor_unfold executor_examples)

end
